theory Spec2Isabelle
  imports Main "HOL-Library.Sublist" "HOL-Library.AList"
begin

unbundle bit_operations_syntax


section \<open>Strings\<close>

text \<open>
  Strings are lists of 8-bit characters. The identifiers, field names and type names the
  program works on are ASCII, where a character is one UTF-16 code unit of the JavaScript
  string and \<open>length\<close> is \<open>.length\<close>.
\<close>

definition charCode :: "char \<Rightarrow> nat" where
  "charCode c = of_char c"

text \<open>\<open>toLowerCase\<close> maps the 26 capital letters and leaves every other character.\<close>

definition lowerChar :: "char \<Rightarrow> char" where
  "lowerChar c =
     (case map_of (zip ''ABCDEFGHIJKLMNOPQRSTUVWXYZ'' ''abcdefghijklmnopqrstuvwxyz'') c of
        Some d \<Rightarrow> d
      | None \<Rightarrow> c)"

definition toLowerCase :: "string \<Rightarrow> string" where
  "toLowerCase s = map lowerChar s"

definition slice :: "nat \<Rightarrow> nat \<Rightarrow> string \<Rightarrow> string" where
  "slice a b s = take (b - a) (drop a s)"

definition sliceFrom :: "nat \<Rightarrow> string \<Rightarrow> string" where
  "sliceFrom a s = drop a s"

section \<open>Reference codec: short and long identifiers\<close>

definition BASE64_KEYS :: string where
  "BASE64_KEYS = ''ABCDEFGHIJKLMNOPQRSTUVWXYZabcdefghijklmnopqrstuvwxyz0123456789+/=''"

text \<open>
  \<open>BASE64_VALUES\<close> is an array of 123 entries, all 64 at first; then the code of the
  \<open>i\<close>-th key gets \<open>i\<close>, for \<open>i < 64\<close>.
\<close>

definition BASE64_VALUES :: "nat list" where
  "BASE64_VALUES =
     fold (\<lambda>i v. v[charCode (BASE64_KEYS ! i) := i]) [0..<64] (replicate 123 64)"

definition HexChars :: string where
  "HexChars = ''0123456789abcdef''"

text \<open>\<open>n.toString(16)\<close> for a non-negative integer.\<close>

fun toString16 :: "nat \<Rightarrow> string" where
  "toString16 n =
     (if n < 16 then [HexChars ! n] else toString16 (n div 16) @ [HexChars ! (n mod 16)])"

declare toString16.simps [simp del]

text \<open>
  \<open>r[e.charCodeAt(i)]\<close> as the bitwise operators of \<open>decodeUuid\<close> read it: every use
  of the looked-up value is an operand of \<open>>>\<close> or \<open>&\<close>, which take \<open>undefined\<close>
  (a code of 123 or more, or no character at \<open>i\<close>) as 0.
\<close>

definition lookupValue :: "string \<Rightarrow> nat \<Rightarrow> nat" where
  "lookupValue e i =
     (if i < length e \<and> charCode (e ! i) < 123 then BASE64_VALUES ! charCode (e ! i) else 0)"

text \<open>The loop \<open>for (let i = start; i < stop; i += 2)\<close> of \<open>decodeUuid\<close>, with its pushes.\<close>

function decodeLoop :: "string \<Rightarrow> nat \<Rightarrow> nat \<Rightarrow> string list" where
  "decodeLoop e i stop =
     (if i < stop then
        (let n = lookupValue e i;
             s = lookupValue e (i + 1)
         in [toString16 (drop_bit 2 n),
             toString16 (push_bit 2 (n AND 3) OR drop_bit 4 s),
             toString16 (s AND 15)] @ decodeLoop e (i + 2) stop)
      else [])"
  by pat_completeness auto
termination
  by (relation "measure (\<lambda>(e, i, stop). stop - i)") auto

declare decodeLoop.simps [simp del]

definition assemble :: "string \<Rightarrow> string" where
  "assemble e =
     slice 0 8 e @ ''-'' @ slice 8 12 e @ ''-'' @ slice 12 16 e @ ''-'' @ slice 16 20 e
       @ ''-'' @ sliceFrom 20 e"

definition decodeUuid :: "string \<Rightarrow> string" where
  "decodeUuid e =
     (if length e = 23 then assemble (slice 0 5 e @ concat (decodeLoop e 5 23))
      else if length e \<noteq> 22 then e
      else assemble (slice 0 2 e @ concat (decodeLoop e 2 22)))"

text \<open>
  \<open>parseInt(c, 16)\<close> of one character; \<open>None\<close> is \<open>NaN\<close>.
\<close>

definition parseInt16 :: "char \<Rightarrow> nat option" where
  "parseInt16 c =
     (let k = charCode c in
      if 48 \<le> k \<and> k \<le> 57 then Some (k - 48)
      else if 97 \<le> k \<and> k \<le> 102 then Some (k - 87)
      else if 65 \<le> k \<and> k \<le> 70 then Some (k - 55)
      else None)"

text \<open>
  \<open>parseInt(hex[i], 16)\<close> as the bitwise operators of \<open>encodeUuid\<close> read it:
  \<open>NaN\<close> (no hexadecimal digit, or no character at \<open>i\<close>) counts as 0.
\<close>

definition hexVal :: "string \<Rightarrow> nat \<Rightarrow> nat" where
  "hexVal hex i =
     (if i < length hex then (case parseInt16 (hex ! i) of Some v \<Rightarrow> v | None \<Rightarrow> 0) else 0)"

text \<open>The loop \<open>for (let i = reserved; i < 32; i += 3)\<close> of \<open>encodeUuid\<close>.\<close>

function encodeLoop :: "string \<Rightarrow> nat \<Rightarrow> string" where
  "encodeLoop hex i =
     (if i < 32 then
        (let hexVal1 = hexVal hex i;
             hexVal2 = hexVal hex (i + 1);
             hexVal3 = hexVal hex (i + 2)
         in [BASE64_KEYS ! (push_bit 2 hexVal1 OR drop_bit 2 hexVal2),
             BASE64_KEYS ! (push_bit 4 (hexVal2 AND 3) OR hexVal3)] @ encodeLoop hex (i + 3))
      else [])"
  by pat_completeness auto
termination
  by (relation "measure (\<lambda>(hex, i). 32 - i)") auto

declare encodeLoop.simps [simp del]

text \<open>
  \<open>encodeUuid(uuid, min)\<close> on a string (the flag \<open>min\<close> is \<open>minimal\<close> here). The reserved characters are copied with
  \<open>out[i] = hex[i]\<close>, and \<open>join\<close> writes nothing for a missing one.
\<close>

definition encodeUuid :: "string \<Rightarrow> bool \<Rightarrow> string" where
  "encodeUuid uuid minimal =
     (if length uuid \<noteq> 36 then uuid
      else
        (let hex = toLowerCase (filter (\<lambda>c. c \<noteq> CHR ''-'') uuid);
             reserved = (if minimal then 2 else 5)
         in take reserved hex @ encodeLoop hex reserved))"

subsection \<open>The two loops as recursions over the characters\<close>

text \<open>
  \<open>digitVal\<close> and \<open>b64Val\<close> are \<open>hexVal\<close> and \<open>lookupValue\<close> on one character;
  \<open>encTriples\<close> and \<open>decPairs\<close> consume the string three and two characters at a
  time. The loops are shown equal to them below.
\<close>

definition digitVal :: "char \<Rightarrow> nat" where
  "digitVal c = (case parseInt16 c of Some v \<Rightarrow> v | None \<Rightarrow> 0)"

definition b64Val :: "char \<Rightarrow> nat" where
  "b64Val c = (if charCode c < 123 then BASE64_VALUES ! charCode c else 0)"

fun encTriples :: "string \<Rightarrow> string" where
  "encTriples (a # b # c # r) =
     [BASE64_KEYS ! (push_bit 2 (digitVal a) OR drop_bit 2 (digitVal b)),
      BASE64_KEYS ! (push_bit 4 (digitVal b AND 3) OR digitVal c)] @ encTriples r"
| "encTriples r = []"

fun decPairs :: "string \<Rightarrow> string" where
  "decPairs (x # y # r) =
     toString16 (drop_bit 2 (b64Val x)) @
     toString16 (push_bit 2 (b64Val x AND 3) OR drop_bit 4 (b64Val y)) @
     toString16 (b64Val y AND 15) @ decPairs r"
| "decPairs r = []"

subsection \<open>The canonical long form\<close>

text \<open>
  A long identifier is 32 hexadecimal digits grouped 8-4-4-4-12 with hyphens, 36 characters
  in all.
\<close>

definition isHexDigit :: "char \<Rightarrow> bool" where
  "isHexDigit c = (c \<in> set ''0123456789abcdefABCDEF'')"

definition validLongId :: "string \<Rightarrow> bool" where
  "validLongId s =
     (length s = 36 \<and> s ! 8 = CHR ''-'' \<and> s ! 13 = CHR ''-'' \<and> s ! 18 = CHR ''-''
      \<and> s ! 23 = CHR ''-''
      \<and> list_all isHexDigit
           (slice 0 8 s @ slice 9 13 s @ slice 14 18 s @ slice 19 23 s @ sliceFrom 24 s))"

section \<open>The graph model\<close>

text \<open>
  A prefab is a parsed JSON document. Objects keep their fields in insertion order, as
  association lists; the first entry with a key is the field. Numbers are integers: the
  only numbers the program computes with are slot indices. \<open>JUndefined\<close> is what an
  array reads at a deleted or missing position. A value is a tree, as \<open>JSON.parse\<close>
  builds it: no object is shared between two places.
\<close>

datatype json =
    JUndefined
  | JNull
  | JBool bool
  | JNum int
  | JStr string
  | JArr "json list"
  | JObj "(string \<times> json) list"

text \<open>\<open>item === null || item === undefined\<close>: a vacated slot.\<close>

definition isTombstone :: "json \<Rightarrow> bool" where
  "isTombstone item = (item = JNull \<or> item = JUndefined)"

text \<open>\<open>arr[i]\<close> on an array: \<open>undefined\<close> out of range.\<close>

definition at :: "json list \<Rightarrow> nat \<Rightarrow> json" where
  "at arr i = (if i < length arr then arr ! i else JUndefined)"

text \<open>\<open>arr.splice(i, 1)\<close>.\<close>

definition splice1 :: "nat \<Rightarrow> 'a list \<Rightarrow> 'a list" where
  "splice1 i arr = take i arr @ drop (Suc i) arr"

section \<open>JavaScript values: truthiness, properties, keys\<close>

fun truthy :: "json \<Rightarrow> bool" where
  "truthy JUndefined = False"
| "truthy JNull = False"
| "truthy (JBool b) = b"
| "truthy (JNum n) = (n \<noteq> 0)"
| "truthy (JStr s) = (s \<noteq> [])"
| "truthy (JArr items) = True"
| "truthy (JObj fields) = True"

fun isArray :: "json \<Rightarrow> bool" where
  "isArray (JArr items) = True"
| "isArray v = False"

fun isString :: "json \<Rightarrow> bool" where
  "isString (JStr s) = True"
| "isString v = False"

text \<open>\<open>typeof v === 'object'\<close> for a truthy \<open>v\<close>: an object or an array.\<close>

fun isObjectType :: "json \<Rightarrow> bool" where
  "isObjectType (JArr items) = True"
| "isObjectType (JObj fields) = True"
| "isObjectType v = False"

fun elems :: "json \<Rightarrow> json list" where
  "elems (JArr items) = items"
| "elems v = []"

fun fieldsOf :: "json \<Rightarrow> (string \<times> json) list" where
  "fieldsOf (JObj fields) = fields"
| "fieldsOf v = []"

text \<open>
  \<open>v.key\<close> and \<open>v[key]\<close> for the field names the program reads. On a value that is
  no object the read gives \<open>undefined\<close>; where the program reads a property of
  \<open>null\<close> or \<open>undefined\<close> without a guard, the model raises \<open>TypeError\<close> at that
  place. Properties inherited from \<open>Object.prototype\<close> are not modelled: no field,
  component kind or node name is \<open>constructor\<close>, \<open>toString\<close> and the like.
\<close>

fun getProp :: "json \<Rightarrow> string \<Rightarrow> json" where
  "getProp (JObj fields) key = (case map_of fields key of Some v \<Rightarrow> v | None \<Rightarrow> JUndefined)"
| "getProp v key = JUndefined"

text \<open>\<open>obj[key] = v\<close>: an existing field keeps its place, a new one goes last.\<close>

definition setField :: "string \<Rightarrow> json \<Rightarrow> json \<Rightarrow> json" where
  "setField key v obj = JObj (AList.update key v (fieldsOf obj))"

text \<open>The own fields of an object, each key once: what \<open>for (key in obj)\<close> visits.\<close>

definition ownFields :: "json \<Rightarrow> (string \<times> json) list" where
  "ownFields obj = AList.clearjunk (fieldsOf obj)"

text \<open>Decimal digits of an integer, as \<open>String(n)\<close> prints a slot number.\<close>

fun showNat :: "nat \<Rightarrow> string" where
  "showNat n =
     (if n < 10 then [''0123456789'' ! n] else showNat (n div 10) @ [''0123456789'' ! (n mod 10)])"

declare showNat.simps [simp del]

definition showInt :: "int \<Rightarrow> string" where
  "showInt i = (if i < 0 then ''-'' @ showNat (nat (- i)) else showNat (nat i))"

text \<open>\<open>String(v)\<close>, which a template literal and a property key apply to a value.\<close>

fun toStringJS :: "json \<Rightarrow> string"
  and joinElems :: "json list \<Rightarrow> string" where
  "toStringJS JUndefined = ''undefined''"
| "toStringJS JNull = ''null''"
| "toStringJS (JBool b) = (if b then ''true'' else ''false'')"
| "toStringJS (JNum n) = showInt n"
| "toStringJS (JStr s) = s"
| "toStringJS (JArr items) = joinElems items"
| "toStringJS (JObj fields) = ''[object Object]''"
| "joinElems [] = []"
| "joinElems (item # items) =
     (if item = JNull \<or> item = JUndefined then [] else toStringJS item)
       @ (if items = [] then [] else '','' @ joinElems items)"

text \<open>
  The array index a property key names: a string of decimal digits with no leading zero,
  below \<open>2^32 - 1\<close>.
\<close>

definition digitsToNat :: "string \<Rightarrow> nat" where
  "digitsToNat s = foldl (\<lambda>acc c. acc * 10 + (charCode c - 48)) 0 s"

definition canonicalIndex :: "string \<Rightarrow> nat option" where
  "canonicalIndex s =
     (if s \<noteq> [] \<and> list_all (\<lambda>c. c \<in> set ''0123456789'') s \<and> (s = ''0'' \<or> hd s \<noteq> CHR ''0'')
         \<and> digitsToNat s < 4294967295
      then Some (digitsToNat s) else None)"

definition slotIndex :: "json \<Rightarrow> nat option" where
  "slotIndex i =
     (case i of
        JNum n \<Rightarrow> (if 0 \<le> n then Some (nat n) else None)
      | _ \<Rightarrow> canonicalIndex (toStringJS i))"

text \<open>\<open>prefabData[i]\<close> for a value \<open>i\<close> read from a reference.\<close>

definition slot :: "json list \<Rightarrow> json \<Rightarrow> json" where
  "slot prefabData i = (case slotIndex i of Some n \<Rightarrow> at prefabData n | None \<Rightarrow> JUndefined)"

text \<open>\<open>s.replace(pat, rep)\<close> with a string pattern: the first occurrence only.\<close>

fun replaceFirst :: "string \<Rightarrow> string \<Rightarrow> string \<Rightarrow> string" where
  "replaceFirst pat rep [] = (if pat = [] then rep else [])"
| "replaceFirst pat rep (c # cs) =
     (if prefix pat (c # cs) then rep @ drop (length pat) (c # cs)
      else c # replaceFirst pat rep cs)"

section \<open>Tree projector\<close>

text \<open>
  What the program can throw. \<open>MalformedGraph\<close> is \<open>Error('Invalid prefab data format')\<close>
  and \<open>RootNotFound\<close> is \<open>Error('Root node not found')\<close>; \<open>TypeError\<close> is a call of a
  method a value does not have or a property read on \<open>null\<close>; \<open>RangeError\<close> is the
  call stack exhausted; \<open>SyntaxError\<close> is \<open>JSON.parse\<close> refusing a text.
\<close>

datatype error = MalformedGraph | RootNotFound | TypeError | RangeError | SyntaxError

text \<open>
  \<open>buildMaps\<close>: the \<open>forEach\<close> over the records, with the index. \<open>type.startsWith\<close>
  exists on strings only.
\<close>

fun buildMapsLoop ::
  "json list \<Rightarrow> nat \<Rightarrow> (nat \<times> json) list \<Rightarrow> (nat \<times> json) list
     \<Rightarrow> error + ((nat \<times> json) list \<times> (nat \<times> json) list)" where
  "buildMapsLoop [] index nodeMap componentMap = Inr (nodeMap, componentMap)"
| "buildMapsLoop (item # rest) index nodeMap componentMap =
     (if \<not> truthy item then buildMapsLoop rest (Suc index) nodeMap componentMap
      else
        (let type = getProp item ''__type__'' in
         if type = JStr ''cc.Node''
         then buildMapsLoop rest (Suc index) (nodeMap @ [(index, item)]) componentMap
         else if truthy type then
           (case type of
              JStr s \<Rightarrow>
                (if prefix ''cc.'' s
                 then buildMapsLoop rest (Suc index) nodeMap (componentMap @ [(index, item)])
                 else buildMapsLoop rest (Suc index) nodeMap componentMap)
            | _ \<Rightarrow> Inl TypeError)
         else buildMapsLoop rest (Suc index) nodeMap componentMap))"

definition buildMaps ::
  "json list \<Rightarrow> error + ((nat \<times> json) list \<times> (nat \<times> json) list)" where
  "buildMaps prefabData = buildMapsLoop prefabData 0 [] []"

text \<open>\<open>findRootNode\<close>: the first entry of the node map, in insertion order, that passes.\<close>

definition noParent :: "json \<Rightarrow> bool" where
  "noParent node =
     (\<not> truthy (getProp node ''_parent'') \<or> getProp (getProp node ''_parent'') ''__id__'' = JUndefined)"

fun findRootNode :: "(nat \<times> json) list \<Rightarrow> (nat \<times> json) option" where
  "findRootNode [] = None"
| "findRootNode ((index, node) # rest) =
     (if noParent node then Some (index, node) else findRootNode rest)"

definition resolveReference :: "json list \<Rightarrow> json \<Rightarrow> json" where
  "resolveReference prefabData refId =
     (let refData = slot prefabData refId in
      if \<not> truthy refData then JObj [(''__ref__'', refId)]
      else if truthy (getProp refData ''__type__'')
      then JObj [(''__type__'', getProp refData ''__type__''), (''__ref__'', refId)]
      else refData)"

text \<open>\<open>parseComponent\<close>: the loop over the keys of the component, filling \<open>result\<close>.\<close>

fun parseComponentLoop ::
  "json list \<Rightarrow> (string \<times> json) list \<Rightarrow> json \<Rightarrow> json" where
  "parseComponentLoop prefabData [] result = result"
| "parseComponentLoop prefabData ((key, v) # rest) result =
     (if key \<noteq> ''__type__'' then
        (if truthy v \<and> isObjectType v \<and> getProp v ''__id__'' \<noteq> JUndefined
         then parseComponentLoop prefabData rest
                (setField key (resolveReference prefabData (getProp v ''__id__'')) result)
         else parseComponentLoop prefabData rest (setField key v result))
      else parseComponentLoop prefabData rest result)"

definition parseComponent :: "json list \<Rightarrow> json \<Rightarrow> json" where
  "parseComponent prefabData component =
     parseComponentLoop prefabData (ownFields component) (JObj [])"

definition parseVector3 :: "json \<Rightarrow> json" where
  "parseVector3 data =
     (if \<not> truthy data then JNull
      else JObj [(''x'', if truthy (getProp data ''x'') then getProp data ''x'' else JNum 0),
                 (''y'', if truthy (getProp data ''y'') then getProp data ''y'' else JNum 0),
                 (''z'', if truthy (getProp data ''z'') then getProp data ''z'' else JNum 0)])"

definition parseQuaternion :: "json \<Rightarrow> json" where
  "parseQuaternion data =
     (if \<not> truthy data then JNull
      else JObj [(''x'', if truthy (getProp data ''x'') then getProp data ''x'' else JNum 0),
                 (''y'', if truthy (getProp data ''y'') then getProp data ''y'' else JNum 0),
                 (''z'', if truthy (getProp data ''z'') then getProp data ''z'' else JNum 0),
                 (''w'', if getProp data ''w'' \<noteq> JUndefined then getProp data ''w'' else JNum 1)])"

text \<open>
  The first \<open>forEach\<close> of \<open>parseNode\<close>, over the component references.
  \<open>component.__type__.replace\<close> exists on strings only.
\<close>

fun parseComponentsLoop :: "json list \<Rightarrow> json list \<Rightarrow> json \<Rightarrow> error + json" where
  "parseComponentsLoop prefabData [] nodeInfo = Inr nodeInfo"
| "parseComponentsLoop prefabData (compRef # rest) nodeInfo =
     (if truthy compRef \<and> getProp compRef ''__id__'' \<noteq> JUndefined then
        (let compId = getProp compRef ''__id__'';
             component = slot prefabData (getProp compRef ''__id__'')
         in if truthy component \<and> truthy (getProp component ''__type__'') then
              (case getProp component ''__type__'' of
                 JStr s \<Rightarrow>
                   (let compType = replaceFirst ''cc.'' [] s;
                        parsed = setField ''__compId__'' compId (parseComponent prefabData component)
                    in parseComponentsLoop prefabData rest
                         (setField ''components''
                            (setField compType parsed (getProp nodeInfo ''components'')) nodeInfo))
               | _ \<Rightarrow> Inl TypeError)
            else parseComponentsLoop prefabData rest nodeInfo)
      else parseComponentsLoop prefabData rest nodeInfo)"

text \<open>The node's own properties, set after the two loops.\<close>

definition basicProperties :: "json \<Rightarrow> json \<Rightarrow> json" where
  "basicProperties nodeData nodeInfo =
     (let n1 = (if getProp nodeData ''_active'' \<noteq> JUndefined
                then setField ''active'' (getProp nodeData ''_active'') nodeInfo else nodeInfo);
          n2 = (if truthy (getProp nodeData ''_lpos'')
                then setField ''position'' (parseVector3 (getProp nodeData ''_lpos'')) n1 else n1);
          n3 = (if truthy (getProp nodeData ''_lrot'')
                then setField ''rotation'' (parseQuaternion (getProp nodeData ''_lrot'')) n2 else n2);
          n4 = (if truthy (getProp nodeData ''_euler'')
                then setField ''euler'' (parseVector3 (getProp nodeData ''_euler'')) n3 else n3)
      in if truthy (getProp nodeData ''_lscale'')
         then setField ''scale'' (parseVector3 (getProp nodeData ''_lscale'')) n4 else n4)"

text \<open>
  \<open>childNode._name || `Node_${childRef.__id__}`\<close>, as the property key it is used for.
\<close>

definition childNameOf :: "json \<Rightarrow> json \<Rightarrow> string" where
  "childNameOf childNode childId =
     (if truthy (getProp childNode ''_name'') then toStringJS (getProp childNode ''_name'')
      else ''Node_'' @ toStringJS childId)"

text \<open>
  \<open>parseNode\<close> calls itself for every child, and nothing in the data bounds the depth of
  the descent: a node that is its own descendant makes it descend until the call stack is
  exhausted, which is a \<open>RangeError\<close>. The first argument is the number of nested calls the
  stack still has room for. \<open>parseChildrenLoop\<close> is the second \<open>forEach\<close>, over the child
  references.
\<close>

fun parseNode :: "nat \<Rightarrow> json list \<Rightarrow> json \<Rightarrow> json \<Rightarrow> error + json"
  and parseChildrenLoop :: "nat \<Rightarrow> json list \<Rightarrow> json list \<Rightarrow> json \<Rightarrow> error + json" where
  "parseNode 0 prefabData nodeIndex nodeData = Inl RangeError"
| "parseNode (Suc stack) prefabData nodeIndex nodeData =
     (let nodeInfo = JObj [(''components'', JObj []), (''children'', JObj []),
                           (''__nodeId__'', nodeIndex)]
      in case (if truthy (getProp nodeData ''_components'') \<and> isArray (getProp nodeData ''_components'')
               then parseComponentsLoop prefabData (elems (getProp nodeData ''_components'')) nodeInfo
               else Inr nodeInfo) of
           Inl e \<Rightarrow> Inl e
         | Inr nodeInfo1 \<Rightarrow>
             (case (if truthy (getProp nodeData ''_children'') \<and> isArray (getProp nodeData ''_children'')
                    then parseChildrenLoop stack prefabData (elems (getProp nodeData ''_children''))
                           nodeInfo1
                    else Inr nodeInfo1) of
                Inl e \<Rightarrow> Inl e
              | Inr nodeInfo2 \<Rightarrow> Inr (basicProperties nodeData nodeInfo2)))"
| "parseChildrenLoop stack prefabData [] nodeInfo = Inr nodeInfo"
| "parseChildrenLoop stack prefabData (childRef # rest) nodeInfo =
     (if truthy childRef \<and> getProp childRef ''__id__'' \<noteq> JUndefined then
        (let childNode = slot prefabData (getProp childRef ''__id__'')
         in if truthy childNode \<and> getProp childNode ''__type__'' = JStr ''cc.Node'' then
              (case parseNode stack prefabData (getProp childRef ''__id__'') childNode of
                 Inl e \<Rightarrow> Inl e
               | Inr child \<Rightarrow>
                   parseChildrenLoop stack prefabData rest
                     (setField ''children''
                        (setField (childNameOf childNode (getProp childRef ''__id__'')) child
                           (getProp nodeInfo ''children'')) nodeInfo))
            else parseChildrenLoop stack prefabData rest nodeInfo)
      else parseChildrenLoop stack prefabData rest nodeInfo)"

definition buildNodeTree :: "nat \<Rightarrow> json list \<Rightarrow> nat \<times> json \<Rightarrow> error + json" where
  "buildNodeTree stack prefabData rootNodeInfo =
     (let nodeName = (if truthy (getProp (snd rootNodeInfo) ''_name'')
                      then toStringJS (getProp (snd rootNodeInfo) ''_name'') else ''Root'')
      in case parseNode stack prefabData (JNum (int (fst rootNodeInfo))) (snd rootNodeInfo) of
           Inl e \<Rightarrow> Inl e
         | Inr nodeInfo \<Rightarrow> Inr (JObj [(nodeName, nodeInfo)]))"

text \<open>\<open>parse()\<close>, on the parser's \<open>prefabData\<close>.\<close>

definition parse :: "nat \<Rightarrow> json \<Rightarrow> error + json" where
  "parse stack prefabData =
     (if \<not> truthy prefabData \<or> \<not> isArray prefabData then Inl MalformedGraph
      else
        (case buildMaps (elems prefabData) of
           Inl e \<Rightarrow> Inl e
         | Inr maps \<Rightarrow>
             (case findRootNode (fst maps) of
                None \<Rightarrow> Inl RootNotFound
              | Some rootNode \<Rightarrow> buildNodeTree stack (elems prefabData) rootNode)))"

text \<open>
  The constructor: a string is read with \<open>JSON.parse\<close>, which is a parameter here
  (\<open>None\<close> is its \<open>SyntaxError\<close>); anything else is taken as it is.
\<close>

definition construct :: "(string \<Rightarrow> json option) \<Rightarrow> json \<Rightarrow> error + json" where
  "construct jsonParse prefabData =
     (case prefabData of
        JStr s \<Rightarrow> (case jsonParse s of None \<Rightarrow> Inl SyntaxError | Some v \<Rightarrow> Inr v)
      | _ \<Rightarrow> Inr prefabData)"

text \<open>\<open>parsePrefab\<close>: the \<open>try\<close> around the constructor and \<open>parse\<close>; \<open>catch\<close> returns \<open>null\<close>.\<close>

definition parsePrefab :: "(string \<Rightarrow> json option) \<Rightarrow> nat \<Rightarrow> json \<Rightarrow> json" where
  "parsePrefab jsonParse stack prefabContent =
     (case construct jsonParse prefabContent of
        Inl e \<Rightarrow> JNull
      | Inr prefabData \<Rightarrow>
          (case parse stack prefabData of
             Inl e \<Rightarrow> JNull
           | Inr tree \<Rightarrow> tree))"

subsection \<open>Records the root search looks at\<close>

definition isNodeRecord :: "json \<Rightarrow> bool" where
  "isNodeRecord item = (getProp item ''__type__'' = JStr ''cc.Node'')"

text \<open>A node record \<open>findRootNode\<close> accepts.\<close>

definition rootCandidate :: "json \<Rightarrow> bool" where
  "rootCandidate item = (isNodeRecord item \<and> noParent item)"

text \<open>A record whose \<open>__type__\<close> is truthy and no string: \<open>buildMaps\<close> stops on it.\<close>

definition badType :: "json \<Rightarrow> bool" where
  "badType item =
     (truthy item \<and> truthy (getProp item ''__type__'') \<and> \<not> isString (getProp item ''__type__''))"

text \<open>
  A parent reference that resolves: the node's \<open>_parent\<close> names a slot of the array that
  holds a record.
\<close>

definition hasResolvableParent :: "json list \<Rightarrow> json \<Rightarrow> bool" where
  "hasResolvableParent prefabData node =
     truthy (slot prefabData (getProp (getProp node ''_parent'') ''__id__''))"

subsection \<open>The child references of a node, by name\<close>





section \<open>Compactor and reindexer\<close>

text \<open>
  \<open>compactAndReindexPrefab\<close> assigns to \<open>obj.__id__\<close> in place, so what it leaves in the
  array depends on which objects of the array are one object: a reference object that
  stands in two fields is met twice and assigned twice. The values of this section
  therefore carry the identity of every object. \<open>GObj a fields\<close> is the object at address
  \<open>a\<close>; a value is the array as the traversal reads it, so an object that stands in two
  places appears in both, with the same address. The first entry with a key is the field.
  The arrays are finite and acyclic: the records come from \<open>JSON.parse\<close>, and what the
  migration assigns into them are values of a second parsed document.
\<close>

datatype gval =
    GUndefined
  | GNull
  | GBool bool
  | GNum int
  | GStr string
  | GArr "gval list"
  | GObj nat "(string \<times> gval) list"

text \<open>\<open>item === null || item === undefined\<close>.\<close>

definition vacated :: "gval \<Rightarrow> bool" where
  "vacated item = (item = GNull \<or> item = GUndefined)"

definition atG :: "gval list \<Rightarrow> nat \<Rightarrow> gval" where
  "atG arr i = (if i < length arr then arr ! i else GUndefined)"

text \<open>
  Step 1 of \<open>compactAndReindexPrefab\<close>: the loop over \<open>oldIndex\<close> that fills
  \<open>oldToNewIdMap\<close>, on the slots still to visit. The map is the list of its entries in
  insertion order; a key is a slot number.
\<close>

fun idMapLoop :: "gval list \<Rightarrow> nat \<Rightarrow> nat \<Rightarrow> (nat \<times> nat) list \<Rightarrow> (nat \<times> nat) list" where
  "idMapLoop [] oldIndex newIndex m = m"
| "idMapLoop (item # rest) oldIndex newIndex m =
     (if \<not> vacated item
      then idMapLoop rest (Suc oldIndex) (Suc newIndex) (m @ [(oldIndex, newIndex)])
      else idMapLoop rest (Suc oldIndex) newIndex m)"

definition oldToNewIdMap :: "gval list \<Rightarrow> (nat \<times> nat) list" where
  "oldToNewIdMap prefabData = idMapLoop prefabData 0 0 []"

text \<open>
  Step 2: \<open>for (let i = compactedData.length - 1; i >= 0; i--)\<close>. The second argument
  is \<open>i + 1\<close>, the number of positions still to visit.
\<close>

fun spliceLoop :: "gval list \<Rightarrow> nat \<Rightarrow> gval list" where
  "spliceLoop compactedData 0 = compactedData"
| "spliceLoop compactedData (Suc i) =
     spliceLoop (if vacated (atG compactedData i) then splice1 i compactedData
                 else compactedData) i"

text \<open>
  \<open>oldToNewIdMap.get(oldId)\<close>: the keys are slot numbers, so a value that is no such
  number finds nothing.
\<close>

definition mapGet :: "(nat \<times> nat) list \<Rightarrow> gval \<Rightarrow> nat option" where
  "mapGet m oldId =
     (case oldId of
        GNum n \<Rightarrow> (if 0 \<le> n then map_of m (nat n) else None)
      | _ \<Rightarrow> None)"

text \<open>\<open>obj.hasOwnProperty(key)\<close>, when the call goes to \<open>Object.prototype\<close>.\<close>

definition hasOwn :: "string \<Rightarrow> (string \<times> gval) list \<Rightarrow> bool" where
  "hasOwn key fields = (key \<in> set (map fst fields))"

text \<open>
  The template literal of the warning converts \<open>oldId\<close> to a string. The conversion of an
  object calls its \<open>toString\<close>; an own field of that name holds no function, and then the
  conversion throws. An array joins the conversions of its elements.
\<close>

fun throwsString :: "gval \<Rightarrow> bool"
  and throwsJoin :: "gval list \<Rightarrow> bool" where
  "throwsString (GObj a fields) = (''toString'' \<in> set (map fst fields))"
| "throwsString (GArr items) = throwsJoin items"
| "throwsString GUndefined = False"
| "throwsString GNull = False"
| "throwsString (GBool b) = False"
| "throwsString (GNum n) = False"
| "throwsString (GStr s) = False"
| "throwsJoin [] = False"
| "throwsJoin (item # items) = (throwsString item \<or> throwsJoin items)"

text \<open>
  The store of the traversal: for the address of an object, the number last assigned to
  its \<open>__id__\<close>; nothing for an object not assigned to. \<open>readId\<close> is \<open>obj.__id__\<close> as it
  reads now.
\<close>

definition readId :: "(nat \<rightharpoonup> nat) \<Rightarrow> nat \<Rightarrow> (string \<times> gval) list \<Rightarrow> gval" where
  "readId s a fields =
     (case s a of
        Some n \<Rightarrow> GNum (int n)
      | None \<Rightarrow> (case map_of fields ''__id__'' of Some v \<Rightarrow> v | None \<Rightarrow> GUndefined))"

text \<open>
  Step 3: \<open>updateReferences\<close>. \<open>obj.hasOwnProperty\<close> is looked up on the object itself
  first: an own field of that name holds no function, and the call throws. An object with
  \<open>__id__\<close> is assigned the new index when the map has the old one; otherwise the warning
  is printed. Then the traversal descends into array elements and into every field but
  \<open>__id__\<close>. No field other than \<open>__id__\<close> is assigned to, so the fields are read from the
  value.
\<close>

fun updateReferences :: "(nat \<times> nat) list \<Rightarrow> gval \<Rightarrow> (nat \<rightharpoonup> nat) \<Rightarrow> error + (nat \<rightharpoonup> nat)"
  and updateElements :: "(nat \<times> nat) list \<Rightarrow> gval list \<Rightarrow> (nat \<rightharpoonup> nat) \<Rightarrow> error + (nat \<rightharpoonup> nat)"
  and updateFields ::
    "(nat \<times> nat) list \<Rightarrow> (string \<times> gval) list \<Rightarrow> (nat \<rightharpoonup> nat) \<Rightarrow> error + (nat \<rightharpoonup> nat)" where
  "updateReferences m (GArr items) s = updateElements m items s"
| "updateReferences m (GObj a fields) s =
     (if hasOwn ''hasOwnProperty'' fields then Inl TypeError
      else if hasOwn ''__id__'' fields then
        (case mapGet m (readId s a fields) of
           Some newId \<Rightarrow> updateFields m fields (s(a \<mapsto> newId))
         | None \<Rightarrow>
             (if throwsString (readId s a fields) then Inl TypeError
              else updateFields m fields s))
      else updateFields m fields s)"
| "updateReferences m GUndefined s = Inr s"
| "updateReferences m GNull s = Inr s"
| "updateReferences m (GBool b) s = Inr s"
| "updateReferences m (GNum n) s = Inr s"
| "updateReferences m (GStr str) s = Inr s"
| "updateElements m [] s = Inr s"
| "updateElements m (item # items) s =
     (case updateReferences m item s of
        Inl e \<Rightarrow> Inl e
      | Inr s1 \<Rightarrow> updateElements m items s1)"
| "updateFields m [] s = Inr s"
| "updateFields m ((key, v) # fields) s =
     (if key = ''__id__'' then updateFields m fields s
      else (case updateReferences m v s of
              Inl e \<Rightarrow> Inl e
            | Inr s1 \<Rightarrow> updateFields m fields s1))"

text \<open>
  The value as it reads once the traversal is over: every object with the \<open>__id__\<close> the
  store holds for its address.
\<close>

fun readBack :: "(nat \<rightharpoonup> nat) \<Rightarrow> gval \<Rightarrow> gval"
  and readBackElements :: "(nat \<rightharpoonup> nat) \<Rightarrow> gval list \<Rightarrow> gval list"
  and readBackFields :: "(nat \<rightharpoonup> nat) \<Rightarrow> (string \<times> gval) list \<Rightarrow> (string \<times> gval) list" where
  "readBack s (GArr items) = GArr (readBackElements s items)"
| "readBack s (GObj a fields) =
     GObj a (case s a of
               Some n \<Rightarrow> AList.update ''__id__'' (GNum (int n)) (readBackFields s fields)
             | None \<Rightarrow> readBackFields s fields)"
| "readBack s GUndefined = GUndefined"
| "readBack s GNull = GNull"
| "readBack s (GBool b) = GBool b"
| "readBack s (GNum n) = GNum n"
| "readBack s (GStr str) = GStr str"
| "readBackElements s [] = []"
| "readBackElements s (item # items) = readBack s item # readBackElements s items"
| "readBackFields s [] = []"
| "readBackFields s ((key, v) # fields) = (key, readBack s v) # readBackFields s fields"

text \<open>
  \<open>compactAndReindexPrefab\<close>: the map, the splices, the traversal of every element that is
  left, from a store that holds nothing. A call that throws returns no array.
\<close>

definition compactAndReindexPrefab :: "gval list \<Rightarrow> error + gval list" where
  "compactAndReindexPrefab prefabData =
     (let m = oldToNewIdMap prefabData;
          compactedData = spliceLoop prefabData (length prefabData)
      in case updateElements m compactedData Map.empty of
           Inl e \<Rightarrow> Inl e
         | Inr s \<Rightarrow> Inr (readBackElements s compactedData))"

subsection \<open>What the compaction is to do\<close>










section \<open>Path matcher\<close>










section \<open>Configuration\<close>

text \<open>A destination of a field map: one field name, or an array of them.\<close>

datatype dest = One string | Many "string list"

definition COMPONENT_TRANSFORM_RULES :: "(string \<times> (string \<times> (string \<times> dest) list) list) list" where
  "COMPONENT_TRANSFORM_RULES =
     [(''UIOpacity'', [(''Node'', [(''_opacity'', One ''_opacity'')])]),
      (''UITransform'',
         [(''Node'', [(''_anchorPoint'', One ''_anchorPoint''),
                      (''_contentSize'', One ''_contentSize'')])]),
      (''Label'',
         [(''Node'', [(''_color'', One ''_color'')]),
          (''Label'', [(''_verticalAlign'', One ''_N$verticalAlign''),
                       (''_horizontalAlign'', One ''_N$horizontalAlign''),
                       (''_fontFamily'', One ''_N$fontFamily''),
                       (''_overflow'', One ''_N$overflow''),
                       (''_cacheMode'', One ''_N$cacheMode''),
                       (''_string'', One ''_N$string''),
                       (''_font'', One ''_N$file'')])]),
      (''Sprite'', [(''Node'', [(''_color'', One ''_color'')])]),
      (''Button'',
         [(''Button'', [(''_transition'', Many [''_N$transition'', ''transition'']),
                        (''_interactable'', One ''_N$interactable''),
                        (''_normalColor'', One ''_N$normalColor''),
                        (''_target'', One ''_N$target''),
                        (''_duration'', One ''duration''),
                        (''_zoomScale'', One ''zoomScale''),
                        (''_hoverColor'', Many [''_N$hoverColor'', ''hoverColor'']),
                        (''_pressedColor'', Many [''_N$pressedColor'', ''pressedColor'']),
                        (''_disabledColor'', Many [''_N$disabledColor'', ''disabledColor'']),
                        (''_normalSprite'', Many [''_N$normalSprite'', ''normalSprite'']),
                        (''_hoverSprite'', Many [''_N$hoverSprite'', ''hoverSprite'']),
                        (''_pressedSprite'', Many [''_N$pressedSprite'', ''pressedSprite'']),
                        (''_disabledSprite'', Many [''_N$disabledSprite'', ''disabledSprite''])])])]"

definition COMPONENTS_TO_REMOVE :: "string list" where
  "COMPONENTS_TO_REMOVE = [''UIOpacity'', ''UITransform'']"

definition FIELD_WHITELIST :: "(string \<times> string list) list" where
  "FIELD_WHITELIST = []"

text \<open>The script map: identifier to target; no entry has a field map.\<close>

definition SCRIPT_UUID_MAP :: "(string \<times> string) list" where
  "SCRIPT_UUID_MAP =
     [(''25f8fxwtsZCT7yF0lzyt5zU'', ''8bab7e0c-0380-491c-b66f-b2bef75657c2''),
      (''08e1e8nYqFCd7dX6KiiPt2N'', ''0657750f-91c5-4c19-9bfb-6c10d21f4687''),
      (''7d729a50-deea-4c4b-8e3a-d1159eb9a33a'', ''a42b0a21-b23f-45bf-87b2-92143c8781da'')]"

definition isShortUUID :: "string \<Rightarrow> bool" where
  "isShortUUID uuid = (length uuid = 22)"

definition isLongUUID :: "string \<Rightarrow> bool" where
  "isLongUUID uuid = (length uuid = 36 \<and> CHR ''-'' \<in> set uuid)"

definition normalizeToShort :: "string \<Rightarrow> string" where
  "normalizeToShort uuid =
     (if isShortUUID uuid then uuid
      else if isLongUUID uuid then encodeUuid uuid False
      else uuid)"

definition normalizeToLong :: "string \<Rightarrow> string" where
  "normalizeToLong uuid =
     (if isLongUUID uuid then uuid
      else if isShortUUID uuid then decodeUuid uuid
      else uuid)"

text \<open>
  \<open>buildNormalizedScriptMap\<close>: each entry becomes \<open>{target, fieldMap: config.fieldMap || {}}\<close>,
  so the field map of every normalized entry is the empty object.
\<close>

definition buildNormalizedScriptMap ::
  "(string \<times> string) list \<Rightarrow> (string \<times> string \<times> (string \<times> string) list) list" where
  "buildNormalizedScriptMap scriptMap =
     foldl (\<lambda>result (fromUUID, target).
              AList.update (normalizeToShort fromUUID) (normalizeToShort target, []) result)
       [] scriptMap"

definition NORMALIZED_SCRIPT_UUID_MAP :: "(string \<times> string \<times> (string \<times> string) list) list" where
  "NORMALIZED_SCRIPT_UUID_MAP = buildNormalizedScriptMap SCRIPT_UUID_MAP"

section \<open>Migration compiler\<close>

text \<open>
  The instructions, one type for each list the program keeps. The arguments are the fields
  of the instruction objects, in the order the source writes them:
  \<open>TRANSFORM_TO_NODE\<close> has \<open>targetNodeId\<close>, \<open>field\<close>, \<open>value\<close>, \<open>source\<close>;
  \<open>TRANSFORM_TO_COMPONENT\<close> has \<open>targetCompId\<close>, \<open>field\<close>, \<open>value\<close>, \<open>source\<close>;
  \<open>MIGRATE_COMPONENT\<close> has \<open>targetCompId\<close>, \<open>componentType\<close>, \<open>fields\<close>.
\<close>

datatype instruction =
    TRANSFORM_TO_NODE json string json string
  | TRANSFORM_TO_COMPONENT json string json string
  | MIGRATE_COMPONENT json string "(string \<times> json) list"

datatype removal =
  REMOVE_COMPONENT (rmNodeId: json) (rmCompId: json) (rmCompType: string) (rmCompIndex: nat)
    (rmNodePath: string)

datatype replacement =
  REPLACE_COMPONENT_TYPE (rpNodeId: json) (rpNodePath: string) (rpOldCompId: json)
    (rpOldCompType: string) (rpNewCompType: string) (rpFieldsToMigrate: "(string \<times> json) list")

datatype substitution = REPLACE_STRING_GLOBAL (fromStr: string) (toStr: string)

definition shouldMigrateField :: "string \<Rightarrow> string \<Rightarrow> bool" where
  "shouldMigrateField compType fieldName =
     (if fieldName = ''node'' \<or> fieldName = ''__compId__'' \<or> fieldName = ''__ref__'' then False
      else (case map_of FIELD_WHITELIST compType of
              Some allowed \<Rightarrow> fieldName \<in> set allowed
            | None \<Rightarrow> True))"

text \<open>\<open>Array.isArray(v2Field) ? v2Field : [v2Field]\<close>.\<close>

fun targets :: "dest \<Rightarrow> string list" where
  "targets (One f) = [f]"
| "targets (Many fs) = fs"

text \<open>\<open>value.__type__ && value.__ref__\<close>: a reference in the form the tree gives it.\<close>

definition isTreeRef :: "json \<Rightarrow> bool" where
  "isTreeRef v = (truthy (getProp v ''__type__'') \<and> truthy (getProp v ''__ref__''))"

text \<open>
  The instructions of one rule whose target is \<open>Node\<close>, and of one rule whose target is a
  component of the target node. Each loop pushes onto \<open>instructions\<close>; here it returns
  what it pushes, in order.
\<close>

definition nodeRuleInstructions ::
  "json \<Rightarrow> string \<Rightarrow> json \<Rightarrow> (string \<times> dest) list \<Rightarrow> instruction list" where
  "nodeRuleInstructions v2Node compType v3Comp fieldMap =
     concat (map (\<lambda>(v3Field, v2Field).
                    (let v = getProp v3Comp v3Field in
                     if v \<noteq> JUndefined \<and> v \<noteq> JNull
                     then map (\<lambda>f. TRANSFORM_TO_NODE (getProp v2Node ''__nodeId__'') f v
                                     (compType @ ''.'' @ v3Field))
                            (targets v2Field)
                     else []))
              fieldMap)"

definition componentRuleInstructions ::
  "json \<Rightarrow> string \<Rightarrow> json \<Rightarrow> (string \<times> dest) list \<Rightarrow> instruction list" where
  "componentRuleInstructions v2TargetComp compType v3Comp fieldMap =
     concat (map (\<lambda>(v3Field, v2Field).
                    (let v0 = getProp v3Comp v3Field in
                     if v0 \<noteq> JUndefined \<and> v0 \<noteq> JNull
                     then (let v = (if isTreeRef v0 then JObj [(''__id__'', getProp v0 ''__ref__'')]
                                    else v0)
                           in map (\<lambda>f. TRANSFORM_TO_COMPONENT (getProp v2TargetComp ''__compId__'') f v
                                           (compType @ ''.'' @ v3Field))
                                (targets v2Field))
                     else []))
              fieldMap)"

definition ruleInstructions ::
  "json \<Rightarrow> string \<Rightarrow> json \<Rightarrow> string \<times> (string \<times> dest) list \<Rightarrow> instruction list" where
  "ruleInstructions v2Node compType v3Comp transformRule =
     (if fst transformRule = ''Node''
      then nodeRuleInstructions v2Node compType v3Comp (snd transformRule)
      else (let v2TargetComp = getProp (getProp v2Node ''components'') (fst transformRule) in
            if truthy v2TargetComp
            then componentRuleInstructions v2TargetComp compType v3Comp (snd transformRule)
            else []))"

definition transformInstructions :: "json \<Rightarrow> string \<Rightarrow> json \<Rightarrow> instruction list" where
  "transformInstructions v2Node compType v3Comp =
     (case map_of COMPONENT_TRANSFORM_RULES compType of
        Some transformRules \<Rightarrow> concat (map (ruleInstructions v2Node compType v3Comp) transformRules)
      | None \<Rightarrow> [])"

text \<open>The loop \<open>for (const fieldName in v3Comp)\<close> that collects \<open>fieldsToMigrate\<close>.\<close>

definition collectFields :: "string \<Rightarrow> json \<Rightarrow> json \<Rightarrow> (string \<times> json) list" where
  "collectFields compType v3Comp v2Comp =
     concat (map (\<lambda>(fieldName, v).
                    (let value2 = getProp v2Comp fieldName in
                     if v = JNull \<or> v = JUndefined \<or> value2 = JUndefined then []
                     else if isTreeRef v then []
                     else if shouldMigrateField compType fieldName then [(fieldName, v)]
                     else []))
              (ownFields v3Comp))"

definition componentInstructions :: "json \<Rightarrow> string \<times> json \<Rightarrow> instruction list" where
  "componentInstructions v2Node entry =
     (let compType = fst entry;
          v3Comp = snd entry;
          v2Comp = getProp (getProp v2Node ''components'') compType
      in transformInstructions v2Node compType v3Comp @
         (if \<not> truthy v2Comp then []
          else (let fs = collectFields compType v3Comp v2Comp in
                if fs \<noteq> [] then [MIGRATE_COMPONENT (getProp v2Comp ''__compId__'') compType fs]
                else [])))"

definition nodeInstructions :: "json \<Rightarrow> string \<times> json \<Rightarrow> instruction list" where
  "nodeInstructions v2PathMap entry =
     (let v2Node = getProp v2PathMap (fst entry) in
      if \<not> truthy v2Node then []
      else concat (map (componentInstructions v2Node)
                     (ownFields (getProp (snd entry) ''components''))))"

definition generateMigrationInstructions :: "json \<Rightarrow> json \<Rightarrow> instruction list" where
  "generateMigrationInstructions v3PathMap v2PathMap =
     concat (map (nodeInstructions v2PathMap) (ownFields v3PathMap))"

subsection \<open>Removal planning\<close>

text \<open>
  \<open>a === b\<close> on two values read from the data. Objects and arrays are equal only when
  they are the same object, which a value cannot say; a slot is named by a number or a
  string, and those compare by value.
\<close>

definition strictEq :: "json \<Rightarrow> json \<Rightarrow> bool" where
  "strictEq a b = (a = b \<and> \<not> isObjectType a)"

text \<open>
  \<open>findIndex((ref) => ref.__id__ === compId)\<close>: reading \<open>__id__\<close> of \<open>null\<close> or
  \<open>undefined\<close> throws. \<open>None\<close> is \<open>-1\<close>.
\<close>

fun findIndexLoop :: "json list \<Rightarrow> json \<Rightarrow> nat \<Rightarrow> error + nat option" where
  "findIndexLoop [] compId i = Inr None"
| "findIndexLoop (ref # rest) compId i =
     (if isTombstone ref then Inl TypeError
      else if strictEq (getProp ref ''__id__'') compId then Inr (Some i)
      else findIndexLoop rest compId (Suc i))"

text \<open>Only an array has \<open>findIndex\<close>.\<close>

definition findComponentIndex :: "json \<Rightarrow> json \<Rightarrow> error + nat option" where
  "findComponentIndex components cId =
     (case components of JArr refs \<Rightarrow> findIndexLoop refs cId 0 | _ \<Rightarrow> Inl TypeError)"

text \<open>Running a loop body that may throw over a list, and collecting what it pushes.\<close>

fun collectE :: "('a \<Rightarrow> error + 'b list) \<Rightarrow> 'a list \<Rightarrow> error + 'b list" where
  "collectE body [] = Inr []"
| "collectE body (x # xs) =
     (case body x of
        Inl e \<Rightarrow> Inl e
      | Inr ys \<Rightarrow> (case collectE body xs of Inl e \<Rightarrow> Inl e | Inr zs \<Rightarrow> Inr (ys @ zs)))"

definition componentRemoval ::
  "json list \<Rightarrow> string \<Rightarrow> json \<Rightarrow> string \<times> json \<Rightarrow> error + removal list" where
  "componentRemoval v2PrefabData path v2Node entry =
     (if fst entry \<in> set COMPONENTS_TO_REMOVE then
        (let nodeData = slot v2PrefabData (getProp v2Node ''__nodeId__'') in
         if truthy nodeData \<and> truthy (getProp nodeData ''_components'') then
           (case findComponentIndex (getProp nodeData ''_components'')
                   (getProp (snd entry) ''__compId__'') of
              Inl e \<Rightarrow> Inl e
            | Inr None \<Rightarrow> Inr []
            | Inr (Some i) \<Rightarrow>
                Inr [REMOVE_COMPONENT (getProp v2Node ''__nodeId__'')
                       (getProp (snd entry) ''__compId__'') (fst entry) i path])
         else Inr [])
      else Inr [])"

definition generateRemovalInstructions :: "json \<Rightarrow> json list \<Rightarrow> error + removal list" where
  "generateRemovalInstructions v2PathMap v2PrefabData =
     collectE (\<lambda>(path, v2Node).
                 collectE (componentRemoval v2PrefabData path v2Node)
                   (ownFields (getProp v2Node ''components'')))
       (ownFields v2PathMap)"

subsection \<open>Script type replacement planning\<close>

text \<open>
  The field map of a normalized entry is an object, hence truthy, so the fields come from
  the map (which is empty in this configuration) and the copy of all fields is never taken.
\<close>

definition mappedFields :: "json \<Rightarrow> (string \<times> string) list \<Rightarrow> (string \<times> json) list" where
  "mappedFields v3Comp fieldMap =
     foldl (\<lambda>acc (v3Field, v2Field).
              (let v = getProp v3Comp v3Field in
               if v \<noteq> JUndefined \<and> v \<noteq> JNull then AList.update v2Field v acc else acc))
       [] fieldMap"

definition componentReplacement :: "string \<Rightarrow> json \<Rightarrow> string \<times> json \<Rightarrow> replacement list" where
  "componentReplacement path v2Node entry =
     (case map_of NORMALIZED_SCRIPT_UUID_MAP (fst entry) of
        None \<Rightarrow> []
      | Some mappingRule \<Rightarrow>
          (let v2CompToReplace = getProp (getProp v2Node ''components'') (fst entry) in
           if \<not> truthy v2CompToReplace then []
           else [REPLACE_COMPONENT_TYPE (getProp v2Node ''__nodeId__'') path
                   (getProp v2CompToReplace ''__compId__'') (fst entry) (fst mappingRule)
                   (mappedFields (snd entry) (snd mappingRule))]))"

definition generateScriptReplacementInstructions :: "json \<Rightarrow> json \<Rightarrow> replacement list" where
  "generateScriptReplacementInstructions v3PathMap v2PathMap =
     concat (map (\<lambda>(path, v3Node).
                    (let v2Node = getProp v2PathMap path in
                     if \<not> truthy v2Node then []
                     else concat (map (componentReplacement path v2Node)
                                    (ownFields (getProp v3Node ''components'')))))
              (ownFields v3PathMap))"

subsection \<open>Global substitution planning\<close>

text \<open>
  The identifier mapping is computed from two data files; it is a parameter here: its
  entries (identifier of the source version, identifier of the target version) in the order
  of \<open>Object.keys\<close>. \<open>Array.prototype.sort\<close> is stable, and the comparator orders an entry
  whose \<open>from\<close> contains \<open>@\<close> before one whose \<open>from\<close> does not.
\<close>

definition hasAt :: "substitution \<Rightarrow> bool" where
  "hasAt ins = (CHR ''@'' \<in> set (fromStr ins))"

definition generateGlobalStringReplaceInstructions ::
  "(string \<times> string) list \<Rightarrow> substitution list" where
  "generateGlobalStringReplaceInstructions mapping =
     sort_key (\<lambda>ins. if hasAt ins then (0::nat) else 1)
       (map (\<lambda>(key, v2Uuid). REPLACE_STRING_GLOBAL key v2Uuid) mapping)
     @ [REPLACE_STRING_GLOBAL ''@f9941'' ''@6c48a'']"

section \<open>Instruction applier\<close>

text \<open>
  \<open>rec[f] = v\<close> on a record of the array. Records are objects; on a value that is not,
  the assignment leaves the data as it is.
\<close>

definition assignField :: "string \<Rightarrow> json \<Rightarrow> json \<Rightarrow> json" where
  "assignField f v record = (case record of JObj fs \<Rightarrow> setField f v record | _ \<Rightarrow> record)"

text \<open>The array with the record of slot \<open>i\<close> changed.\<close>

definition updateSlot :: "json list \<Rightarrow> json \<Rightarrow> (json \<Rightarrow> json) \<Rightarrow> json list" where
  "updateSlot prefabData i change =
     (case slotIndex i of
        Some n \<Rightarrow> (if n < length prefabData then prefabData[n := change (prefabData ! n)]
                   else prefabData)
      | None \<Rightarrow> prefabData)"

definition assignFields :: "(string \<times> json) list \<Rightarrow> json \<Rightarrow> json" where
  "assignFields fs record = foldl (\<lambda>r (f, v). assignField f v r) record fs"

fun applyInstruction :: "json list \<Rightarrow> instruction \<Rightarrow> json list" where
  "applyInstruction v2PrefabData (TRANSFORM_TO_NODE nId f v src) =
     (let node = slot v2PrefabData nId in
      if truthy node \<and> getProp node ''__type__'' = JStr ''cc.Node''
      then updateSlot v2PrefabData nId (assignField f v)
      else v2PrefabData)"
| "applyInstruction v2PrefabData (TRANSFORM_TO_COMPONENT cId f v src) =
     (let comp = slot v2PrefabData cId in
      if truthy comp then updateSlot v2PrefabData cId (assignField f v) else v2PrefabData)"
| "applyInstruction v2PrefabData (MIGRATE_COMPONENT cId cType fs) =
     (let comp = slot v2PrefabData cId in
      if truthy comp then updateSlot v2PrefabData cId (assignFields fs) else v2PrefabData)"

definition applyMigrationInstructions :: "json list \<Rightarrow> instruction list \<Rightarrow> json list" where
  "applyMigrationInstructions v2PrefabData instructions =
     foldl applyInstruction v2PrefabData instructions"

subsection \<open>Removal\<close>






subsection \<open>Script type replacement\<close>

definition scriptStep :: "json list \<Rightarrow> replacement \<Rightarrow> json list" where
  "scriptStep v2PrefabData instruction =
     (let node = slot v2PrefabData (rpNodeId instruction);
          oldComp = slot v2PrefabData (rpOldCompId instruction)
      in if \<not> truthy node \<or> \<not> truthy oldComp then v2PrefabData
         else updateSlot v2PrefabData (rpOldCompId instruction)
                (\<lambda>c. assignFields (rpFieldsToMigrate instruction)
                        (if truthy (getProp c ''__type__'')
                         then assignField ''__type__'' (JStr (rpNewCompType instruction)) c
                         else c)))"

subsection \<open>Global substitution\<close>

text \<open>\<open>str.includes(pat)\<close> and \<open>str.split(pat)\<close> with a string pattern.\<close>

fun includesStr :: "string \<Rightarrow> string \<Rightarrow> bool" where
  "includesStr pat [] = (pat = [])"
| "includesStr pat (c # cs) = (prefix pat (c # cs) \<or> includesStr pat cs)"

function splitLoop :: "string \<Rightarrow> string \<Rightarrow> string \<Rightarrow> string list" where
  "splitLoop pat piece [] = [piece]"
| "splitLoop pat piece (c # cs) =
     (if pat \<noteq> [] \<and> prefix pat (c # cs)
      then piece # splitLoop pat [] (drop (length pat) (c # cs))
      else splitLoop pat (piece @ [c]) cs)"
  by pat_completeness auto
termination
  by (relation "measure (\<lambda>(pat, piece, rest). length rest)") auto

definition split :: "string \<Rightarrow> string \<Rightarrow> string list" where
  "split pat str =
     (if pat = [] then map (\<lambda>c. [c]) str else splitLoop pat [] str)"

fun joinWith :: "string \<Rightarrow> string list \<Rightarrow> string" where
  "joinWith sep [] = []"
| "joinWith sep [piece] = piece"
| "joinWith sep (piece # pieces) = piece @ sep @ joinWith sep pieces"

definition replaceString :: "string \<Rightarrow> string \<Rightarrow> string \<Rightarrow> string" where
  "replaceString str pat rep = (if includesStr pat str then joinWith rep (split pat str) else str)"

text \<open>
  \<open>traverse(obj, from, to)\<close> of the substitution pass, as \<open>replaceIn\<close>: a string held in an
  array element or in a field is replaced in place, an array or object is entered, anything
  else stays. \<open>replaceValue\<close> is what becomes of one element or field.
\<close>

fun replaceIn :: "string \<Rightarrow> string \<Rightarrow> json \<Rightarrow> json"
  and replaceValue :: "string \<Rightarrow> string \<Rightarrow> json \<Rightarrow> json"
  and replaceElements :: "string \<Rightarrow> string \<Rightarrow> json list \<Rightarrow> json list"
  and replaceFields :: "string \<Rightarrow> string \<Rightarrow> (string \<times> json) list \<Rightarrow> (string \<times> json) list" where
  "replaceIn pat rep (JArr items) = JArr (replaceElements pat rep items)"
| "replaceIn pat rep (JObj fs) = JObj (replaceFields pat rep fs)"
| "replaceIn pat rep JUndefined = JUndefined"
| "replaceIn pat rep JNull = JNull"
| "replaceIn pat rep (JBool b) = JBool b"
| "replaceIn pat rep (JNum n) = JNum n"
| "replaceIn pat rep (JStr s) = JStr s"
| "replaceValue pat rep (JStr s) = JStr (replaceString s pat rep)"
| "replaceValue pat rep (JArr items) = JArr (replaceElements pat rep items)"
| "replaceValue pat rep (JObj fs) = JObj (replaceFields pat rep fs)"
| "replaceValue pat rep JUndefined = JUndefined"
| "replaceValue pat rep JNull = JNull"
| "replaceValue pat rep (JBool b) = JBool b"
| "replaceValue pat rep (JNum n) = JNum n"
| "replaceElements pat rep [] = []"
| "replaceElements pat rep (item # items) =
     replaceValue pat rep item # replaceElements pat rep items"
| "replaceFields pat rep [] = []"
| "replaceFields pat rep ((key, v) # fs) = (key, replaceValue pat rep v) # replaceFields pat rep fs"

text \<open>
  One instruction: \<open>traverse\<close> is called on every item of the array. A string that is
  itself an item is returned replaced, and the result is dropped.
\<close>

definition substitutionStep :: "json list \<Rightarrow> substitution \<Rightarrow> json list" where
  "substitutionStep prefabData ins =
     map (replaceIn (fromStr ins) (toStr ins)) prefabData"

definition applyStringReplaceInstructions :: "json list \<Rightarrow> substitution list \<Rightarrow> json list" where
  "applyStringReplaceInstructions prefabData instructions =
     foldl substitutionStep prefabData instructions"

subsection \<open>The substitution pass as a map over the strings\<close>

text \<open>
  \<open>mapStrings f\<close> applies \<open>f\<close> to every string held in an array element or in a field,
  at any depth, and leaves a value that is itself a string. \<open>substituteAll\<close> is what a
  list of instructions does to one string, in list order.
\<close>

fun mapStrings :: "(string \<Rightarrow> string) \<Rightarrow> json \<Rightarrow> json"
  and mapStringValue :: "(string \<Rightarrow> string) \<Rightarrow> json \<Rightarrow> json"
  and mapStringElements :: "(string \<Rightarrow> string) \<Rightarrow> json list \<Rightarrow> json list"
  and mapStringFields :: "(string \<Rightarrow> string) \<Rightarrow> (string \<times> json) list \<Rightarrow> (string \<times> json) list" where
  "mapStrings f (JArr items) = JArr (mapStringElements f items)"
| "mapStrings f (JObj fs) = JObj (mapStringFields f fs)"
| "mapStrings f JUndefined = JUndefined"
| "mapStrings f JNull = JNull"
| "mapStrings f (JBool b) = JBool b"
| "mapStrings f (JNum n) = JNum n"
| "mapStrings f (JStr s) = JStr s"
| "mapStringValue f (JStr s) = JStr (f s)"
| "mapStringValue f (JArr items) = JArr (mapStringElements f items)"
| "mapStringValue f (JObj fs) = JObj (mapStringFields f fs)"
| "mapStringValue f JUndefined = JUndefined"
| "mapStringValue f JNull = JNull"
| "mapStringValue f (JBool b) = JBool b"
| "mapStringValue f (JNum n) = JNum n"
| "mapStringElements f [] = []"
| "mapStringElements f (item # items) = mapStringValue f item # mapStringElements f items"
| "mapStringFields f [] = []"
| "mapStringFields f ((key, v) # fs) = (key, mapStringValue f v) # mapStringFields f fs"

definition substituteAll :: "substitution list \<Rightarrow> string \<Rightarrow> string" where
  "substituteAll instructions s =
     foldl (\<lambda>str ins. replaceString str (fromStr ins) (toStr ins)) s instructions"

subsection \<open>What a removal plan asks for\<close>

text \<open>
  \<open>removeAt ps i xs\<close> is \<open>xs\<close>, read as the elements at positions \<open>i\<close>, \<open>i + 1\<close>, ...,
  without the elements whose position is in \<open>ps\<close>; the others keep their order.
\<close>

fun removeAt :: "nat list \<Rightarrow> nat \<Rightarrow> 'a list \<Rightarrow> 'a list" where
  "removeAt ps i [] = []"
| "removeAt ps i (x # xs) =
     (if i \<in> set ps then removeAt ps (Suc i) xs else x # removeAt ps (Suc i) xs)"

definition componentsOf :: "json \<Rightarrow> json list" where
  "componentsOf node = elems (getProp node ''_components'')"

text \<open>The positions a plan records for the node of slot \<open>n\<close>, and the component slots it names.\<close>

definition positionsAt :: "removal list \<Rightarrow> nat \<Rightarrow> nat list" where
  "positionsAt rs n = map rmCompIndex (filter (\<lambda>r. slotIndex (rmNodeId r) = Some n) rs)"

definition compSlots :: "removal list \<Rightarrow> nat list" where
  "compSlots rs =
     concat (map (\<lambda>r. case slotIndex (rmCompId r) of Some c \<Rightarrow> [c] | None \<Rightarrow> []) rs)"

text \<open>
  The array a plan asks for, before compaction: a named component slot that holds a
  record is vacated, a node loses the references at its recorded positions, every other
  slot stays.
\<close>

definition removedSlot :: "json list \<Rightarrow> removal list \<Rightarrow> nat \<Rightarrow> json" where
  "removedSlot d rs i =
     (if i \<in> set (compSlots rs) \<and> truthy (d ! i) then JUndefined
      else if positionsAt rs i \<noteq> []
      then assignField ''_components''
             (JArr (removeAt (positionsAt rs i) 0 (componentsOf (d ! i)))) (d ! i)
      else d ! i)"

definition removed :: "json list \<Rightarrow> removal list \<Rightarrow> json list" where
  "removed d rs = map (removedSlot d rs) [0..<length d]"



text \<open>The component kind of a record, as the tree names it.\<close>

definition kindOf :: "json \<Rightarrow> string" where
  "kindOf record = (case getProp record ''__type__'' of JStr s \<Rightarrow> replaceFirst ''cc.'' [] s | _ \<Rightarrow> [])"

section \<open>The reference codec: the round trip\<close>

lemma fold_update_nth:
  "distinct (map f js) \<Longrightarrow> j \<in> set js \<Longrightarrow> f j < length v \<Longrightarrow>
   (fold (\<lambda>i v. v[f i := g i]) js v) ! f j = g j"
proof (induction js arbitrary: v)
  case Nil
  then show ?case by simp
next
  case (Cons a js)
  have keep: "\<And>w. f a \<notin> f ` set js \<Longrightarrow> f a < length w \<Longrightarrow>
      (fold (\<lambda>i v. v[f i := g i]) js w) ! f a = w ! f a"
  proof -
    fix w show "f a \<notin> f ` set js \<Longrightarrow> f a < length w \<Longrightarrow>
      (fold (\<lambda>i v. v[f i := g i]) js w) ! f a = w ! f a"
      by (induction js arbitrary: w) auto
  qed
  show ?case
  proof (cases "j = a")
    case True
    with Cons.prems keep [of "v[f a := g a]"] show ?thesis by simp
  next
    case False
    with Cons.prems Cons.IH [of "v[f a := g a]"] show ?thesis by simp
  qed
qed

lemma map_nth_take: "n \<le> length xs \<Longrightarrow> map ((!) xs) [0..<n] = take n xs"
proof -
  assume n: "n \<le> length xs"
  have "take n xs = take n (map ((!) xs) [0..<length xs])"
    by (simp add: map_nth)
  also have "\<dots> = map ((!) xs) (take n [0..<length xs])"
    by (simp add: take_map)
  also from n have "take n [0..<length xs] = [0..<n]"
    by simp
  finally show ?thesis by simp
qed

lemma key_codes:
  "map (\<lambda>i. charCode (BASE64_KEYS ! i)) [0..<64] = map charCode (take 64 BASE64_KEYS)"
proof -
  have "map (\<lambda>i. charCode (BASE64_KEYS ! i)) [0..<64] = map charCode (map ((!) BASE64_KEYS) [0..<64])"
    by simp
  also have "map ((!) BASE64_KEYS) [0..<64] = take 64 BASE64_KEYS"
    by (rule map_nth_take) (simp add: BASE64_KEYS_def)
  finally show ?thesis .
qed

lemma key_codes_distinct: "distinct (map (\<lambda>i. charCode (BASE64_KEYS ! i)) [0..<64])"
  unfolding key_codes by (simp add: BASE64_KEYS_def charCode_def)

lemma key_codes_small: "\<forall>k \<in> set (map (\<lambda>i. charCode (BASE64_KEYS ! i)) [0..<64]). k < 123"
  unfolding key_codes by (simp add: BASE64_KEYS_def charCode_def)

lemma keys_values:
  assumes "a < 64"
  shows "b64Val (BASE64_KEYS ! a) = a"
proof -
  from assms have mem: "a \<in> set [0..<64]" by simp
  from key_codes_small mem have small: "charCode (BASE64_KEYS ! a) < 123"
    by (simp del: upt_Suc)
  have "fold (\<lambda>i v. v[charCode (BASE64_KEYS ! i) := i]) [0..<64] (replicate 123 64)
          ! charCode (BASE64_KEYS ! a) = a"
    by (rule fold_update_nth [OF key_codes_distinct mem]) (simp add: small)
  with small show ?thesis
    by (simp add: b64Val_def BASE64_VALUES_def)
qed

lemma lt16: "(a::nat) < 16 \<Longrightarrow> a = 0 \<or> a = 1 \<or> a = 2 \<or> a = 3 \<or> a = 4 \<or> a = 5 \<or> a = 6 \<or> a = 7
   \<or> a = 8 \<or> a = 9 \<or> a = 10 \<or> a = 11 \<or> a = 12 \<or> a = 13 \<or> a = 14 \<or> a = 15"
  by arith

lemma pack1:
  assumes "a < 16" "b < 16"
  shows "push_bit 2 a OR drop_bit 2 b < (64::nat) \<and> drop_bit 2 (push_bit 2 a OR drop_bit 2 b) = a
   \<and> (push_bit 2 a OR drop_bit 2 b) AND 3 = drop_bit 2 b"
  using lt16[OF assms(1)] lt16[OF assms(2)]
  by (elim disjE; simp add: numeral_3_eq_3[symmetric] numeral_2_eq_2[symmetric])

lemma pack2:
  assumes "b < 16" "c < 16"
  shows "push_bit 4 (b AND 3) OR c < (64::nat) \<and> drop_bit 4 (push_bit 4 (b AND 3) OR c) = b AND 3
   \<and> (push_bit 4 (b AND 3) OR c) AND 15 = c"
  using lt16[OF assms(1)] lt16[OF assms(2)]
  by (elim disjE; simp add: numeral_3_eq_3[symmetric] numeral_2_eq_2[symmetric])

lemma pack3:
  assumes "b < 16"
  shows "push_bit 2 (drop_bit 2 b) OR (b AND 3) = (b::nat)"
  using lt16[OF assms(1)]
  by (elim disjE; simp add: numeral_3_eq_3[symmetric] numeral_2_eq_2[symmetric])

lemma toString16_digit: "n < 16 \<Longrightarrow> toString16 n = [HexChars ! n]"
  by (subst toString16.simps) simp

lemma hex_digit:
  assumes "c \<in> set HexChars"
  shows "digitVal c < 16 \<and> toString16 (digitVal c) = [c]"
  using assms
  by (auto simp: HexChars_def digitVal_def parseInt16_def charCode_def toString16_digit)

lemma dec_enc_triple:
  assumes a: "a \<in> set HexChars" and b: "b \<in> set HexChars" and c: "c \<in> set HexChars"
  defines "x \<equiv> BASE64_KEYS ! (push_bit 2 (digitVal a) OR drop_bit 2 (digitVal b))"
    and "y \<equiv> BASE64_KEYS ! (push_bit 4 (digitVal b AND 3) OR digitVal c)"
  shows "toString16 (drop_bit 2 (b64Val x)) = [a]"
    and "toString16 (push_bit 2 (b64Val x AND 3) OR drop_bit 4 (b64Val y)) = [b]"
    and "toString16 (b64Val y AND 15) = [c]"
proof -
  note da = hex_digit [OF a] and db = hex_digit [OF b] and dc = hex_digit [OF c]
  note p1 = pack1 [of "digitVal a" "digitVal b"] and p2 = pack2 [of "digitVal b" "digitVal c"]
  have x: "b64Val x = push_bit 2 (digitVal a) OR drop_bit 2 (digitVal b)"
    unfolding x_def using p1 da db by (intro keys_values) blast
  have y: "b64Val y = push_bit 4 (digitVal b AND 3) OR digitVal c"
    unfolding y_def using p2 db dc by (intro keys_values) blast
  show "toString16 (drop_bit 2 (b64Val x)) = [a]"
    using p1 da db by (simp add: x)
  show "toString16 (push_bit 2 (b64Val x AND 3) OR drop_bit 4 (b64Val y)) = [b]"
    using p1 p2 da db dc pack3 [of "digitVal b"] by (simp add: x y)
  show "toString16 (b64Val y AND 15) = [c]"
    using p2 db dc by (simp add: y)
qed

lemma decPairs_encTriples:
  "set xs \<subseteq> set HexChars \<Longrightarrow> length xs mod 3 = 0 \<Longrightarrow> decPairs (encTriples xs) = xs"
proof (induction xs rule: encTriples.induct)
  case (1 a b c r)
  then have a: "a \<in> set HexChars" and b: "b \<in> set HexChars" and c: "c \<in> set HexChars"
    by simp_all
  from 1 have ih: "decPairs (encTriples r) = r" by simp
  show ?case
    by (simp only: encTriples.simps decPairs.simps append.simps dec_enc_triple [OF a b c] ih)
qed simp_all

lemma length_encTriples: "length xs mod 3 = 0 \<Longrightarrow> 3 * length (encTriples xs) = 2 * length xs"
  by (induction xs rule: encTriples.induct) simp_all

lemma encodeLoop_encTriples:
  "length hex = 32 \<Longrightarrow> i mod 3 = 2 \<Longrightarrow> encodeLoop hex i = encTriples (drop i hex)"
proof (induction hex i rule: encodeLoop.induct)
  case (1 hex i)
  show ?case
  proof (cases "i < 32")
    case True
    with 1 have i: "i + 2 < length hex" by presburger
    then have d: "drop i hex = hex ! i # hex ! (i + 1) # hex ! (i + 2) # drop (i + 3) hex"
      by (simp add: Cons_nth_drop_Suc numeral_3_eq_3 numeral_2_eq_2)
    from 1 True have "encodeLoop hex (i + 3) = encTriples (drop (i + 3) hex)" by simp
    with True i show ?thesis
      by (subst encodeLoop.simps) (simp add: d hexVal_def digitVal_def Let_def)
  next
    case False
    with 1 show ?thesis by (subst encodeLoop.simps) simp
  qed
qed

lemma decodeLoop_decPairs:
  "length e = stop \<Longrightarrow> even (stop - i) \<Longrightarrow> concat (decodeLoop e i stop) = decPairs (drop i e)"
proof (induction e i stop rule: decodeLoop.induct)
  case (1 e i stop)
  show ?case
  proof (cases "i < stop")
    case True
    with 1 have i: "i + 1 < length e" by (cases "stop - i = 1") auto
    then have d: "drop i e = e ! i # e ! (i + 1) # drop (i + 2) e"
      by (simp add: Cons_nth_drop_Suc numeral_2_eq_2)
    from 1 True i have "concat (decodeLoop e (i + 2) stop) = decPairs (drop (i + 2) e)" by simp
    with True i show ?thesis
      by (subst decodeLoop.simps) (simp add: d lookupValue_def b64Val_def Let_def)
  next
    case False
    with 1 show ?thesis by (subst decodeLoop.simps) simp
  qed
qed

lemma lowerChar_hex:
  assumes "isHexDigit c"
  shows "lowerChar c \<in> set HexChars \<and> c \<noteq> CHR ''-''"
proof -
  from assms have "c \<in> set ''0123456789abcdefABCDEF''"
    by (simp only: isHexDigit_def)
  then show ?thesis
    by (simp only: set_simps insert_iff empty_iff) (elim disjE FalseE; simp add: lowerChar_def HexChars_def)
qed

lemma lowerChar_hyphen: "lowerChar CHR ''-'' = CHR ''-''"
  by (simp add: lowerChar_def)

lemma long_id_groups:
  assumes "length s = 36"
  shows "slice 0 8 s @ [s ! 8] @ slice 9 13 s @ [s ! 13] @ slice 14 18 s @ [s ! 18]
             @ slice 19 23 s @ [s ! 23] @ sliceFrom 24 s = s"
proof -
  have c: "s ! 23 # drop 24 s = drop 23 s" "s ! 18 # drop 19 s = drop 18 s"
      "s ! 13 # drop 14 s = drop 13 s" "s ! 8 # drop 9 s = drop 8 s"
    using assms Cons_nth_drop_Suc [of 23 s] Cons_nth_drop_Suc [of 18 s]
      Cons_nth_drop_Suc [of 13 s] Cons_nth_drop_Suc [of 8 s] by simp_all
  have t: "take 4 (drop 19 s) @ drop 23 s = drop 19 s" "take 4 (drop 14 s) @ drop 18 s = drop 14 s"
      "take 4 (drop 9 s) @ drop 13 s = drop 9 s"
    using append_take_drop_id [of 4 "drop 19 s"] append_take_drop_id [of 4 "drop 14 s"]
      append_take_drop_id [of 4 "drop 9 s"] by simp_all
  show ?thesis
    by (simp add: slice_def sliceFrom_def c t)
qed

text \<open>The round trip, for an identifier given by its five groups of digits.\<close>

lemma roundtrip_groups:
  assumes s: "s = g1 @ ''-'' @ g2 @ ''-'' @ g3 @ ''-'' @ g4 @ ''-'' @ g5"
    and len: "length g1 = 8" "length g2 = 4" "length g3 = 4" "length g4 = 4" "length g5 = 12"
    and digits: "list_all isHexDigit (g1 @ g2 @ g3 @ g4 @ g5)"
  shows "decodeUuid (encodeUuid s False) = toLowerCase s"
    and "length (encodeUuid s False) = 23"
    and "take 5 (encodeUuid s False) = toLowerCase (take 5 s)"
proof -
  define H where "H = g1 @ g2 @ g3 @ g4 @ g5"
  define hex where "hex = toLowerCase H"
  from len have lens: "length s = 36" by (simp add: s)
  have dig: "\<forall>c \<in> set H. lowerChar c \<in> set HexChars \<and> c \<noteq> CHR ''-''"
    using digits lowerChar_hex unfolding H_def list_all_iff by blast
  then have nohyph: "filter (\<lambda>c. c \<noteq> CHR ''-'') H = H"
    by (simp add: filter_id_conv)
  then have "filter (\<lambda>c. c \<noteq> CHR ''-'') s = H"
    by (simp add: s H_def)
  then have hex: "toLowerCase (filter (\<lambda>c. c \<noteq> CHR ''-'') s) = hex"
    by (simp add: hex_def)
  have lenhex: "length hex = 32"
    by (simp add: hex_def H_def toLowerCase_def len)
  from dig have sethex: "set hex \<subseteq> set HexChars"
    unfolding hex_def toLowerCase_def by auto
  have enc: "encodeUuid s False = take 5 hex @ encTriples (drop 5 hex)"
    using lens by (simp add: encodeUuid_def hex Let_def encodeLoop_encTriples [OF lenhex])
  have lenenc: "length (encTriples (drop 5 hex)) = 18"
    using length_encTriples [of "drop 5 hex"] lenhex by simp
  with enc lenhex show l23: "length (encodeUuid s False) = 23"
    by simp
  have "set (drop 5 hex) \<subseteq> set HexChars"
    using sethex set_drop_subset [of 5 hex] by blast
  then have dec: "decPairs (encTriples (drop 5 hex)) = drop 5 hex"
    using lenhex by (intro decPairs_encTriples) simp_all
  have "concat (decodeLoop (take 5 hex @ encTriples (drop 5 hex)) 5 23) = drop 5 hex"
    using lenhex lenenc by (subst decodeLoop_decPairs) (simp_all add: dec)
  then have "decodeUuid (encodeUuid s False) = assemble hex"
    using l23 lenhex by (simp add: decodeUuid_def enc slice_def)
  also have "assemble hex = toLowerCase s"
    by (simp add: assemble_def hex_def H_def s toLowerCase_def slice_def sliceFrom_def len
        lowerChar_hyphen)
  finally show "decodeUuid (encodeUuid s False) = toLowerCase s" .
  have "take 5 (encodeUuid s False) = take 5 hex"
    using lenhex by (simp add: enc)
  also have "\<dots> = toLowerCase (take 5 s)"
    by (simp add: hex_def H_def s toLowerCase_def len take_map)
  finally show "take 5 (encodeUuid s False) = toLowerCase (take 5 s)" .
qed

lemma roundtrip_lower:
  assumes v: "validLongId s"
  shows "decodeUuid (encodeUuid s False) = toLowerCase s
     \<and> length (encodeUuid s False) = 23
     \<and> take 5 (encodeUuid s False) = toLowerCase (take 5 s)"
proof -
  from v have len: "length s = 36" and hyph: "s ! 8 = CHR ''-''" "s ! 13 = CHR ''-''"
      "s ! 18 = CHR ''-''" "s ! 23 = CHR ''-''"
    and digits: "list_all isHexDigit
           (slice 0 8 s @ slice 9 13 s @ slice 14 18 s @ slice 19 23 s @ sliceFrom 24 s)"
    by (simp_all add: validLongId_def)
  have s_eq: "s = slice 0 8 s @ ''-'' @ slice 9 13 s @ ''-'' @ slice 14 18 s @ ''-''
             @ slice 19 23 s @ ''-'' @ sliceFrom 24 s"
    using long_id_groups [OF len, symmetric] by (simp only: hyph)
  have lens: "length (slice 0 8 s) = 8" "length (slice 9 13 s) = 4" "length (slice 14 18 s) = 4"
     "length (slice 19 23 s) = 4" "length (sliceFrom 24 s) = 12"
    using len by (simp_all add: slice_def sliceFrom_def)
  show ?thesis
    using roundtrip_groups [OF s_eq lens digits] by blast
qed

text \<open>
  C4. For every long identifier (32 hexadecimal digits grouped 8-4-4-4-12 with hyphens),
  \<open>decodeUuid (encodeUuid id)\<close> is \<open>id\<close> with its capital digits in lower case, hence
  \<open>id\<close> itself when \<open>id\<close> has none; \<open>encodeUuid id\<close> has 23 characters, the first five
  being the first five of \<open>id\<close> in lower case. \<open>encodeUuid\<close> is a function of its
  arguments alone.
\<close>

theorem encodeUuid_decodeUuid_roundtrip:
  assumes "validLongId s"
  shows "decodeUuid (encodeUuid s False) = toLowerCase s
     \<and> (toLowerCase s = s \<longrightarrow> decodeUuid (encodeUuid s False) = s)
     \<and> length (encodeUuid s False) = 23
     \<and> take 5 (encodeUuid s False) = toLowerCase (take 5 s)"
  using roundtrip_lower [OF assms] by simp

theorem encodeUuid_decodeUuid_roundtrip_witness:
  "validLongId ''e9ec654c-97a2-4787-9325-e6a10375219a''
   \<and> decodeUuid (encodeUuid ''e9ec654c-97a2-4787-9325-e6a10375219a'' False)
       = ''e9ec654c-97a2-4787-9325-e6a10375219a''
   \<and> length (encodeUuid ''e9ec654c-97a2-4787-9325-e6a10375219a'' False) = 23
   \<and> take 5 (encodeUuid ''e9ec654c-97a2-4787-9325-e6a10375219a'' False) = ''e9ec6''"
proof -
  have v: "validLongId ''e9ec654c-97a2-4787-9325-e6a10375219a''"
    by (simp add: validLongId_def slice_def sliceFrom_def isHexDigit_def)
  have l: "toLowerCase ''e9ec654c-97a2-4787-9325-e6a10375219a''
             = ''e9ec654c-97a2-4787-9325-e6a10375219a''"
    by (simp add: toLowerCase_def lowerChar_def)
  have l5: "toLowerCase ''e9ec6'' = ''e9ec6''"
    by (simp add: toLowerCase_def lowerChar_def)
  show ?thesis
    using encodeUuid_decodeUuid_roundtrip [OF v] v l l5 by simp
qed

text \<open>
  The identifier below is a long identifier written with capital digits; the round trip
  returns it in lower case, not as it was.
\<close>

theorem roundtrip_capital_counterexample:
  "validLongId ''E9EC654C-97A2-4787-9325-E6A10375219A''
   \<and> decodeUuid (encodeUuid ''E9EC654C-97A2-4787-9325-E6A10375219A'' False)
       \<noteq> ''E9EC654C-97A2-4787-9325-E6A10375219A''"
proof -
  have v: "validLongId ''E9EC654C-97A2-4787-9325-E6A10375219A''"
    by (simp add: validLongId_def slice_def sliceFrom_def isHexDigit_def)
  have l: "toLowerCase ''E9EC654C-97A2-4787-9325-E6A10375219A''
             = ''e9ec654c-97a2-4787-9325-e6a10375219a''"
    by (simp add: toLowerCase_def lowerChar_def)
  show ?thesis
    using roundtrip_lower [OF v] v l by simp
qed

section \<open>Compaction: length, order and references\<close>





lemma length_readBackElements: "length (readBackElements s vs) = length vs"
  by (induction vs) simp_all
















text \<open>
  One reference object \<open>{__id__: 3}\<close>, at address 9, stands in two fields of the record of
  slot 0, and slot 1 is vacated, so the map takes 2 to 1 and 3 to 2. The traversal meets the
  object twice: the first visit assigns 2, the second reads 2 and assigns 1. Both fields
  end with the index of the record that was in slot 2, not of the one in slot 3.
\<close>

lemma shared_reference_rewritten_twice:
  "compactAndReindexPrefab
     [GObj 0 [(''a'', GObj 9 [(''__id__'', GNum 3)]), (''b'', GObj 9 [(''__id__'', GNum 3)])],
      GNull, GObj 1 [], GObj 2 []]
   = Inr [GObj 0 [(''a'', GObj 9 [(''__id__'', GNum 1)]), (''b'', GObj 9 [(''__id__'', GNum 1)])],
          GObj 1 [], GObj 2 []]"
  by (simp add: compactAndReindexPrefab_def oldToNewIdMap_def vacated_def atG_def splice1_def
      hasOwn_def readId_def mapGet_def)

text \<open>
  A record with an own field \<open>hasOwnProperty\<close>, and an \<open>__id__\<close> the map does not have
  whose conversion to a string throws: the call throws a \<open>TypeError\<close>.
\<close>

lemma own_hasOwnProperty_throws:
  "compactAndReindexPrefab [GObj 0 [(''hasOwnProperty'', GNum 1)]] = Inl TypeError"
  by (simp add: compactAndReindexPrefab_def oldToNewIdMap_def vacated_def atG_def hasOwn_def)

lemma unprintable_id_throws:
  "compactAndReindexPrefab [GObj 0 [(''__id__'', GObj 1 [(''toString'', GNum 1)])]]
   = Inl TypeError"
  by (simp add: compactAndReindexPrefab_def oldToNewIdMap_def vacated_def atG_def hasOwn_def
      readId_def mapGet_def)




section \<open>Tree projection: errors and the root\<close>

lemma parseComponentsLoop_error:
  "parseComponentsLoop d refs nodeInfo = Inl e \<Longrightarrow> e = TypeError"
  by (induction d refs nodeInfo rule: parseComponentsLoop.induct)
    (auto simp: Let_def split: if_splits json.splits)

lemma parseNode_error:
  "parseNode stack d nodeIndex nodeData = Inl e \<Longrightarrow> e = TypeError \<or> e = RangeError"
  "parseChildrenLoop stack d refs nodeInfo = Inl e \<Longrightarrow> e = TypeError \<or> e = RangeError"
proof (induction stack d nodeIndex nodeData and stack d refs nodeInfo
    rule: parseNode_parseChildrenLoop.induct)
  case (1 prefabData nodeIndex nodeData)
  then show ?case by simp
next
  case (2 stack prefabData nodeIndex nodeData)
  then show ?case
    by (auto simp: Let_def split: if_splits sum.splits dest: parseComponentsLoop_error)
next
  case (3 stack prefabData nodeInfo)
  then show ?case by simp
next
  case (4 stack prefabData childRef rest nodeInfo)
  then show ?case
    by (auto simp: Let_def split: if_splits sum.splits)
qed

lemma buildNodeTree_result:
  "buildNodeTree stack d r = Inl e \<Longrightarrow> e = TypeError \<or> e = RangeError"
  "buildNodeTree stack d r = Inr t \<Longrightarrow> t \<noteq> JNull"
  by (auto simp: buildNodeTree_def Let_def split: sum.splits dest: parseNode_error)

lemma buildMapsLoop_result:
  "buildMapsLoop xs index nodeMap componentMap =
     (if \<exists>x \<in> set xs. badType x then Inl TypeError
      else Inr (nodeMap @ filter (\<lambda>p. isNodeRecord (snd p)) (zip [index..<index + length xs] xs),
                componentMap @ filter (\<lambda>p. \<not> isNodeRecord (snd p) \<and>
                   (case getProp (snd p) ''__type__'' of JStr s \<Rightarrow> prefix ''cc.'' s | _ \<Rightarrow> False))
                   (zip [index..<index + length xs] xs)))"
proof (induction xs index nodeMap componentMap rule: buildMapsLoop.induct)
  case (1 index nodeMap componentMap)
  then show ?case by simp
next
  case (2 item rest index nodeMap componentMap)
  have step: "zip [index..<index + length (item # rest)] (item # rest)
                = (index, item) # zip [Suc index..<Suc index + length rest] rest"
    by (simp add: upt_rec)
  show ?case
  proof (cases "truthy item")
    case False
    then have "getProp item ''__type__'' = JUndefined" by (cases item) simp_all
    with False 2 show ?thesis
      unfolding step by (auto simp: badType_def isNodeRecord_def)
  next
    case True
    show ?thesis
    proof (cases "getProp item ''__type__'' = JStr ''cc.Node''")
      case n: True
      with True 2 show ?thesis
        unfolding step by (auto simp: badType_def isNodeRecord_def)
    next
      case n: False
      with True 2 show ?thesis
        unfolding step
        by (cases "getProp item ''__type__''") (auto simp: badType_def isNodeRecord_def)
    qed
  qed
qed


lemma findRootNode_find: "findRootNode nodeMap = find (\<lambda>p. noParent (snd p)) nodeMap"
  by (induction nodeMap rule: findRootNode.induct) simp_all

lemma find_filter: "find P (filter Q xs) = find (\<lambda>x. Q x \<and> P x) xs"
  by (induction xs) simp_all

lemma find_indexed_first:
  "i < length xs \<Longrightarrow> P (xs ! i) \<Longrightarrow> (\<forall>j<i. \<not> P (xs ! j)) \<Longrightarrow>
   find (\<lambda>p. P (snd p)) (zip [k..<k + length xs] xs) = Some (k + i, xs ! i)"
proof (induction xs arbitrary: i k)
  case Nil
  then show ?case by simp
next
  case (Cons x xs)
  have step: "zip [k..<k + length (x # xs)] (x # xs) = (k, x) # zip [Suc k..<Suc k + length xs] xs"
    by (simp add: upt_rec)
  show ?case
  proof (cases i)
    case 0
    with Cons.prems show ?thesis unfolding step by simp
  next
    case (Suc i')
    with Cons.prems have "\<not> P x" by auto
    moreover from Suc Cons.prems
    have "find (\<lambda>p. P (snd p)) (zip [Suc k..<Suc k + length xs] xs) = Some (Suc k + i', xs ! i')"
      by (intro Cons.IH) auto
    ultimately show ?thesis unfolding step using Suc by simp
  qed
qed

lemma find_indexed_none:
  "find (\<lambda>p. P (snd p)) (zip [k..<k + length xs] xs) = None \<longleftrightarrow> \<not> (\<exists>x \<in> set xs. P x)"
proof -
  have "snd ` set (zip [k..<k + length xs] xs) = set xs"
    by (metis length_upt add_diff_cancel_left' map_snd_zip set_map)
  then show ?thesis
    unfolding find_None_iff by (metis (no_types, lifting) image_iff snd_conv prod.collapse)
qed

lemma parse_array:
  "parse stack (JArr xs) =
     (if \<exists>x \<in> set xs. badType x then Inl TypeError
      else case find (\<lambda>p. rootCandidate (snd p)) (zip [0..<0 + length xs] xs) of
             None \<Rightarrow> Inl RootNotFound
           | Some rootNode \<Rightarrow> buildNodeTree stack xs rootNode)"
  by (simp add: parse_def buildMaps_def buildMapsLoop_result findRootNode_find find_filter
      rootCandidate_def del: upt_Suc split: option.splits)

text \<open>
  C7. \<open>parse\<close> fails with \<open>MalformedGraph\<close> exactly when its input is no array. On an array
  it fails with \<open>RootNotFound\<close> exactly when no record stops \<open>buildMaps\<close> with a type error
  (a truthy \<open>__type__\<close> that is no string) and no node record passes the root test, which
  is: \<open>_parent\<close> is falsy or has no \<open>__id__\<close>; whether the slot that \<open>__id__\<close> names
  exists is not looked at. When several node records pass, the first in array order is the
  root.
\<close>

theorem parse_errors_and_root:
  "(parse stack prefabData = Inl MalformedGraph \<longleftrightarrow> \<not> isArray prefabData)
   \<and> (parse stack (JArr xs) = Inl RootNotFound
        \<longleftrightarrow> \<not> (\<exists>x \<in> set xs. badType x) \<and> \<not> (\<exists>x \<in> set xs. rootCandidate x))
   \<and> (\<forall>i. i < length xs \<and> \<not> (\<exists>x \<in> set xs. badType x) \<and> rootCandidate (xs ! i)
            \<and> (\<forall>j<i. \<not> rootCandidate (xs ! j))
         \<longrightarrow> parse stack (JArr xs) = buildNodeTree stack xs (i, xs ! i))"
proof (intro conjI allI impI)
  show "parse stack prefabData = Inl MalformedGraph \<longleftrightarrow> \<not> isArray prefabData"
  proof (cases prefabData)
    case (JArr ys)
    have "parse stack (JArr ys) \<noteq> Inl MalformedGraph"
      by (auto simp: parse_array split: option.splits dest: buildNodeTree_result(1))
    then show ?thesis by (simp add: JArr)
  qed (simp_all add: parse_def)
next
  show "parse stack (JArr xs) = Inl RootNotFound
        \<longleftrightarrow> \<not> (\<exists>x \<in> set xs. badType x) \<and> \<not> (\<exists>x \<in> set xs. rootCandidate x)"
  proof (cases "\<exists>x \<in> set xs. badType x")
    case True
    then show ?thesis by (simp add: parse_array)
  next
    case False
    show ?thesis
    proof (cases "find (\<lambda>p. rootCandidate (snd p)) (zip [0..<0 + length xs] xs)")
      case None
      with False show ?thesis
        using find_indexed_none [of rootCandidate 0 xs] by (simp add: parse_array del: upt_Suc)
    next
      case (Some r)
      then have "\<exists>x \<in> set xs. rootCandidate x"
        using find_indexed_none [of rootCandidate 0 xs] by auto
      moreover have "buildNodeTree stack xs r \<noteq> Inl RootNotFound"
        by (auto dest: buildNodeTree_result(1))
      ultimately show ?thesis
        using False Some by (simp add: parse_array del: upt_Suc)
    qed
  qed
next
  fix i
  assume a: "i < length xs \<and> \<not> (\<exists>x \<in> set xs. badType x) \<and> rootCandidate (xs ! i)
            \<and> (\<forall>j<i. \<not> rootCandidate (xs ! j))"
  then have "find (\<lambda>p. rootCandidate (snd p)) (zip [0..<0 + length xs] xs) = Some (0 + i, xs ! i)"
    by (intro find_indexed_first) auto
  with a show "parse stack (JArr xs) = buildNodeTree stack xs (i, xs ! i)"
    by (simp add: parse_array del: upt_Suc)
qed


theorem parse_errors_and_root_witness:
  "\<not> badType (JObj [(''__type__'', JStr ''cc.Prefab'')])
   \<and> \<not> rootCandidate (JObj [(''__type__'', JStr ''cc.Prefab'')])
   \<and> rootCandidate (JObj [(''__type__'', JStr ''cc.Node''), (''_name'', JStr ''A''), (''_parent'', JNull)])
   \<and> rootCandidate (JObj [(''__type__'', JStr ''cc.Node''), (''_name'', JStr ''B'')])
   \<and> parse (Suc 0)
        (JArr [JObj [(''__type__'', JStr ''cc.Prefab'')],
               JObj [(''__type__'', JStr ''cc.Node''), (''_name'', JStr ''A''), (''_parent'', JNull)],
               JObj [(''__type__'', JStr ''cc.Node''), (''_name'', JStr ''B'')]])
       = Inr (JObj [(''A'', JObj [(''components'', JObj []), (''children'', JObj []),
                                  (''__nodeId__'', JNum 1)])])"
proof -
  let ?p = "JObj [(''__type__'', JStr ''cc.Prefab'')]"
  let ?a = "JObj [(''__type__'', JStr ''cc.Node''), (''_name'', JStr ''A''), (''_parent'', JNull)]"
  let ?b = "JObj [(''__type__'', JStr ''cc.Node''), (''_name'', JStr ''B'')]"
  have p: "\<not> badType ?p" "\<not> rootCandidate ?p"
    by (simp_all add: badType_def rootCandidate_def isNodeRecord_def)
  have a: "\<not> badType ?a" "rootCandidate ?a"
    by (simp_all add: badType_def rootCandidate_def isNodeRecord_def noParent_def)
  have b: "\<not> badType ?b" "rootCandidate ?b"
    by (simp_all add: badType_def rootCandidate_def isNodeRecord_def noParent_def)
  have "parse (Suc 0) (JArr [?p, ?a, ?b]) = buildNodeTree (Suc 0) [?p, ?a, ?b] (1, [?p, ?a, ?b] ! 1)"
    using parse_errors_and_root [of "Suc 0" JNull "[?p, ?a, ?b]", THEN conjunct2, THEN conjunct2,
        THEN spec [of _ 1]] p a b
    by simp
  also have "\<dots> = Inr (JObj [(''A'', JObj [(''components'', JObj []), (''children'', JObj []),
                                  (''__nodeId__'', JNum 1)])])"
    by (simp add: buildNodeTree_def basicProperties_def)
  finally show ?thesis using p a b by simp
qed

text \<open>
  Two arrays. In the first no record is a node, and \<open>parse\<close> fails with a type error, not
  with \<open>RootNotFound\<close>. In the second the only node names a parent slot that does not
  exist, so it has no resolvable parent, and \<open>parse\<close> fails with \<open>RootNotFound\<close>.
\<close>

theorem parse_root_counterexample:
  "parse (Suc 0) (JArr [JObj [(''__type__'', JNum 5)]]) = Inl TypeError
   \<and> \<not> isNodeRecord (JObj [(''__type__'', JNum 5)])
   \<and> parse (Suc 0)
        (JArr [JObj [(''__type__'', JStr ''cc.Node''), (''_name'', JStr ''Root''),
                     (''_parent'', JObj [(''__id__'', JNum 7)])]])
       = Inl RootNotFound
   \<and> isNodeRecord (JObj [(''__type__'', JStr ''cc.Node''), (''_name'', JStr ''Root''),
                          (''_parent'', JObj [(''__id__'', JNum 7)])])
   \<and> \<not> hasResolvableParent
          [JObj [(''__type__'', JStr ''cc.Node''), (''_name'', JStr ''Root''),
                 (''_parent'', JObj [(''__id__'', JNum 7)])]]
          (JObj [(''__type__'', JStr ''cc.Node''), (''_name'', JStr ''Root''),
                 (''_parent'', JObj [(''__id__'', JNum 7)])])"
  by (simp add: parse_def buildMaps_def isNodeRecord_def noParent_def hasResolvableParent_def
      slot_def slotIndex_def at_def)

text \<open>
  C9. \<open>parsePrefab\<close> returns a value on every input: \<open>null\<close> when the constructor or
  \<open>parse\<close> raises (in particular on an input that is neither a string nor an array, and
  on an array with no root node), and the tree otherwise; the tree is never \<open>null\<close>.
\<close>

theorem parsePrefab_never_throws:
  "(\<forall>e. construct jsonParse prefabContent = Inl e
        \<longrightarrow> parsePrefab jsonParse stack prefabContent = JNull)
   \<and> (\<forall>d e. construct jsonParse prefabContent = Inr d \<and> parse stack d = Inl e
        \<longrightarrow> parsePrefab jsonParse stack prefabContent = JNull)
   \<and> (\<forall>d tree. construct jsonParse prefabContent = Inr d \<and> parse stack d = Inr tree
        \<longrightarrow> parsePrefab jsonParse stack prefabContent = tree \<and> tree \<noteq> JNull)
   \<and> (\<not> isString prefabContent \<and> \<not> isArray prefabContent
        \<longrightarrow> parse stack prefabContent = Inl MalformedGraph
            \<and> parsePrefab jsonParse stack prefabContent = JNull)
   \<and> (\<forall>xs. prefabContent = JArr xs \<and> \<not> (\<exists>x \<in> set xs. rootCandidate x)
        \<longrightarrow> (parse stack prefabContent = Inl RootNotFound \<or> parse stack prefabContent = Inl TypeError)
            \<and> parsePrefab jsonParse stack prefabContent = JNull)"
proof (intro conjI allI impI)
  fix e assume "construct jsonParse prefabContent = Inl e"
  then show "parsePrefab jsonParse stack prefabContent = JNull"
    by (simp add: parsePrefab_def)
next
  fix d e assume "construct jsonParse prefabContent = Inr d \<and> parse stack d = Inl e"
  then show "parsePrefab jsonParse stack prefabContent = JNull"
    by (simp add: parsePrefab_def)
next
  fix d tree assume a: "construct jsonParse prefabContent = Inr d \<and> parse stack d = Inr tree"
  then show "parsePrefab jsonParse stack prefabContent = tree"
    by (simp add: parsePrefab_def)
  from a have "parse stack d = Inr tree" by simp
  then show "tree \<noteq> JNull"
    by (auto simp: parse_def split: if_splits sum.splits option.splits
        dest: buildNodeTree_result(2))
next
  assume a: "\<not> isString prefabContent \<and> \<not> isArray prefabContent"
  then show m: "parse stack prefabContent = Inl MalformedGraph"
    by (simp add: parse_def)
  from a have "construct jsonParse prefabContent = Inr prefabContent"
    by (cases prefabContent) (simp_all add: construct_def)
  with m show "parsePrefab jsonParse stack prefabContent = JNull"
    by (simp add: parsePrefab_def)
next
  fix xs assume a: "prefabContent = JArr xs \<and> \<not> (\<exists>x \<in> set xs. rootCandidate x)"
  then have "find (\<lambda>p. rootCandidate (snd p)) (zip [0..<0 + length xs] xs) = None"
    using find_indexed_none [of rootCandidate 0 xs] by blast
  with a show p: "parse stack prefabContent = Inl RootNotFound \<or> parse stack prefabContent = Inl TypeError"
    by (simp add: parse_array del: upt_Suc)
  from a have "construct jsonParse prefabContent = Inr prefabContent"
    by (simp add: construct_def)
  with p show "parsePrefab jsonParse stack prefabContent = JNull"
    by (auto simp: parsePrefab_def)
qed

theorem parsePrefab_never_throws_witness:
  "parsePrefab (\<lambda>s. None) (Suc 0) (JNum 3) = JNull
   \<and> parsePrefab (\<lambda>s. None) (Suc 0) (JStr ''[1,'') = JNull
   \<and> \<not> rootCandidate (JObj [(''__type__'', JStr ''cc.Prefab'')])
   \<and> parsePrefab (\<lambda>s. None) (Suc 0) (JArr [JObj [(''__type__'', JStr ''cc.Prefab'')]]) = JNull
   \<and> parse (Suc 0) (JArr [JObj [(''__type__'', JStr ''cc.Node''), (''_name'', JStr ''A'')]])
       = Inr (JObj [(''A'', JObj [(''components'', JObj []), (''children'', JObj []),
                                  (''__nodeId__'', JNum 0)])])
   \<and> parsePrefab (\<lambda>s. None) (Suc 0)
        (JArr [JObj [(''__type__'', JStr ''cc.Node''), (''_name'', JStr ''A'')]])
       = JObj [(''A'', JObj [(''components'', JObj []), (''children'', JObj []),
                             (''__nodeId__'', JNum 0)])]"
proof -
  have 1: "parsePrefab (\<lambda>s. None) (Suc 0) (JNum 3) = JNull"
    using parsePrefab_never_throws [of "\<lambda>s. None" "JNum 3" "Suc 0"] by simp
  have 2: "parsePrefab (\<lambda>s. None) (Suc 0) (JStr ''[1,'') = JNull"
    using parsePrefab_never_throws [of "\<lambda>s. None" "JStr ''[1,''" "Suc 0"]
    by (simp add: construct_def)
  have r: "\<not> rootCandidate (JObj [(''__type__'', JStr ''cc.Prefab'')])"
    by (simp add: rootCandidate_def isNodeRecord_def)
  have 3: "parsePrefab (\<lambda>s. None) (Suc 0) (JArr [JObj [(''__type__'', JStr ''cc.Prefab'')]]) = JNull"
    using parsePrefab_never_throws [of "\<lambda>s. None" "JArr [JObj [(''__type__'', JStr ''cc.Prefab'')]]" "Suc 0"] r
    by simp
  let ?d = "JArr [JObj [(''__type__'', JStr ''cc.Node''), (''_name'', JStr ''A'')]]"
  have p: "parse (Suc 0) ?d = Inr (JObj [(''A'', JObj [(''components'', JObj []),
              (''children'', JObj []), (''__nodeId__'', JNum 0)])])"
    by (simp add: parse_def buildMaps_def noParent_def buildNodeTree_def basicProperties_def)
  have 4: "parsePrefab (\<lambda>s. None) (Suc 0) ?d = JObj [(''A'', JObj [(''components'', JObj []),
              (''children'', JObj []), (''__nodeId__'', JNum 0)])]"
    using parsePrefab_never_throws [of "\<lambda>s. None" ?d "Suc 0"] p
    by (simp add: construct_def)
  show ?thesis using 1 2 r 3 p 4 by simp
qed

section \<open>Sibling names in the tree and in the path map\<close>


















section \<open>Global substitution: order and effect\<close>

lemma replaceIn_mapStrings:
  "replaceIn pat rep v = mapStrings (\<lambda>s. replaceString s pat rep) v"
  "replaceValue pat rep v = mapStringValue (\<lambda>s. replaceString s pat rep) v"
  "replaceElements pat rep vs = mapStringElements (\<lambda>s. replaceString s pat rep) vs"
  "replaceFields pat rep fs = mapStringFields (\<lambda>s. replaceString s pat rep) fs"
  by (induction pat rep v and pat rep v and pat rep vs and pat rep fs
      rule: replaceIn_replaceValue_replaceElements_replaceFields.induct) simp_all

lemma mapStrings_comp:
  "mapStrings g (mapStrings f v) = mapStrings (g \<circ> f) v"
  "mapStringValue g (mapStringValue f v) = mapStringValue (g \<circ> f) v"
  "mapStringElements g (mapStringElements f vs) = mapStringElements (g \<circ> f) vs"
  "mapStringFields g (mapStringFields f fs) = mapStringFields (g \<circ> f) fs"
  by (induction f v and f v and f vs and f fs
      rule: mapStrings_mapStringValue_mapStringElements_mapStringFields.induct) simp_all

lemma mapStrings_id:
  "mapStrings (\<lambda>s. s) v = v"
  "mapStringValue (\<lambda>s. s) v = v"
  "mapStringElements (\<lambda>s. s) vs = vs"
  "mapStringFields (\<lambda>s. s) fs = fs"
  by (induction "\<lambda>s::string. s" v and "\<lambda>s::string. s" v and "\<lambda>s::string. s" vs and "\<lambda>s::string. s" fs
      rule: mapStrings_mapStringValue_mapStringElements_mapStringFields.induct) simp_all

lemma applyString_mapStrings:
  "applyStringReplaceInstructions d instructions = map (mapStrings (substituteAll instructions)) d"
proof (induction instructions arbitrary: d rule: rev_induct)
  case Nil
  show ?case
    by (simp add: applyStringReplaceInstructions_def substituteAll_def mapStrings_id)
next
  case (snoc ins instructions)
  have "substituteAll (instructions @ [ins])
          = (\<lambda>s. replaceString s (fromStr ins) (toStr ins)) \<circ> substituteAll instructions"
    by (auto simp: substituteAll_def)
  with snoc [of d] show ?case
    by (simp add: applyStringReplaceInstructions_def substitutionStep_def replaceIn_mapStrings
        mapStrings_comp comp_def)
qed

lemma insort_key_front:
  fixes k :: "'a \<Rightarrow> nat"
  shows "\<forall>z \<in> set zs. k x \<le> k z \<Longrightarrow> insort_key k x zs = x # zs"
  by (cases zs) simp_all

lemma insort_key_middle:
  fixes k :: "'a \<Rightarrow> nat"
  shows "\<forall>y \<in> set ys. k y < k x \<Longrightarrow> \<forall>z \<in> set zs. k x \<le> k z \<Longrightarrow>
    insort_key k x (ys @ zs) = ys @ x # zs"
proof (induction ys)
  case Nil
  then show ?case by (simp add: insort_key_front)
next
  case (Cons y ys)
  then have "\<not> k x \<le> k y" by simp
  with Cons show ?case by simp
qed

lemma sort_key_two:
  fixes k :: "'a \<Rightarrow> nat"
  assumes "\<forall>x \<in> set xs. k x = 0 \<or> k x = 1"
  shows "sort_key k xs = filter (\<lambda>x. k x = 0) xs @ filter (\<lambda>x. k x \<noteq> 0) xs"
  using assms
proof (induction xs)
  case Nil
  then show ?case by simp
next
  case (Cons x xs)
  then have ih: "sort_key k xs = filter (\<lambda>x. k x = 0) xs @ filter (\<lambda>x. k x \<noteq> 0) xs" by simp
  from Cons.prems have "k x = 0 \<or> k x = 1" by simp
  then show ?case
  proof
    assume k0: "k x = 0"
    then have "insort_key k x (sort_key k xs) = x # sort_key k xs"
      by (intro insort_key_front) simp
    with k0 show ?thesis by (simp add: ih)
  next
    assume k1: "k x = 1"
    have "insort_key k x (filter (\<lambda>x. k x = 0) xs @ filter (\<lambda>x. k x \<noteq> 0) xs)
            = filter (\<lambda>x. k x = 0) xs @ x # filter (\<lambda>x. k x \<noteq> 0) xs"
      using k1 Cons.prems by (intro insort_key_middle) auto
    with k1 show ?thesis by (simp add: ih)
  qed
qed

lemma generate_partition:
  "generateGlobalStringReplaceInstructions mapping =
     filter hasAt (map (\<lambda>(key, v2Uuid). REPLACE_STRING_GLOBAL key v2Uuid) mapping)
     @ filter (\<lambda>ins. \<not> hasAt ins) (map (\<lambda>(key, v2Uuid). REPLACE_STRING_GLOBAL key v2Uuid) mapping)
     @ [REPLACE_STRING_GLOBAL ''@f9941'' ''@6c48a'']"
proof -
  let ?k = "\<lambda>ins. if hasAt ins then (0::nat) else 1"
  let ?M = "map (\<lambda>(key, v2Uuid). REPLACE_STRING_GLOBAL key v2Uuid) mapping"
  have "sort_key ?k ?M = filter (\<lambda>x. ?k x = 0) ?M @ filter (\<lambda>x. ?k x \<noteq> 0) ?M"
    by (rule sort_key_two) simp
  moreover have "filter (\<lambda>x. ?k x = 0) ?M = filter hasAt ?M"
    by (rule filter_cong) auto
  moreover have "filter (\<lambda>x. ?k x \<noteq> 0) ?M = filter (\<lambda>ins. \<not> hasAt ins) ?M"
    by (rule filter_cong) auto
  ultimately have "sort_key ?k ?M = filter hasAt ?M @ filter (\<lambda>ins. \<not> hasAt ins) ?M"
    by (simp only:)
  then show ?thesis
    unfolding generateGlobalStringReplaceInstructions_def by (simp only: append_assoc)
qed

text \<open>
  C5. The substitution list is the mapped pairs whose \<open>from\<close> contains \<open>@\<close>, in their
  order, then the mapped pairs whose \<open>from\<close> does not, in their order, then the fixed pair
  \<open>(@f9941, @6c48a)\<close>, which is always last. The pass applies the instructions in that
  order to every string held in a field or array element of a record. With the mapped
  pairs \<open>(abc@v1, xyz@v2)\<close> and \<open>(abc, xyz)\<close>, in either order of the mapping, the string
  \<open>assets/abc@v1/tex.png\<close> becomes \<open>assets/xyz@v2/tex.png\<close>.
\<close>

theorem substitution_order:
  "generateGlobalStringReplaceInstructions mapping =
     filter hasAt (map (\<lambda>(key, v2Uuid). REPLACE_STRING_GLOBAL key v2Uuid) mapping)
     @ filter (\<lambda>ins. \<not> hasAt ins) (map (\<lambda>(key, v2Uuid). REPLACE_STRING_GLOBAL key v2Uuid) mapping)
     @ [REPLACE_STRING_GLOBAL ''@f9941'' ''@6c48a'']
   \<and> applyStringReplaceInstructions prefabData instructions
       = map (mapStrings (substituteAll instructions)) prefabData
   \<and> substituteAll (generateGlobalStringReplaceInstructions
          [(''abc@v1'', ''xyz@v2''), (''abc'', ''xyz'')]) ''assets/abc@v1/tex.png''
       = ''assets/xyz@v2/tex.png''
   \<and> substituteAll (generateGlobalStringReplaceInstructions
          [(''abc'', ''xyz''), (''abc@v1'', ''xyz@v2'')]) ''assets/abc@v1/tex.png''
       = ''assets/xyz@v2/tex.png''
   \<and> applyStringReplaceInstructions [JObj [(''tex'', JArr [JStr ''assets/abc@v1/tex.png''])]]
        (generateGlobalStringReplaceInstructions [(''abc'', ''xyz''), (''abc@v1'', ''xyz@v2'')])
       = [JObj [(''tex'', JArr [JStr ''assets/xyz@v2/tex.png''])]]"
proof -
  have r1: "replaceString ''assets/abc@v1/tex.png'' ''abc@v1'' ''xyz@v2'' = ''assets/xyz@v2/tex.png''"
    by (simp add: replaceString_def split_def)
  have r2: "replaceString ''assets/xyz@v2/tex.png'' ''abc'' ''xyz'' = ''assets/xyz@v2/tex.png''"
    by (simp add: replaceString_def split_def)
  have r3: "replaceString ''assets/xyz@v2/tex.png'' ''@f9941'' ''@6c48a'' = ''assets/xyz@v2/tex.png''"
    by (simp add: replaceString_def split_def)
  have s1: "substituteAll (generateGlobalStringReplaceInstructions
          [(''abc@v1'', ''xyz@v2''), (''abc'', ''xyz'')]) ''assets/abc@v1/tex.png''
       = ''assets/xyz@v2/tex.png''"
    by (simp add: generate_partition hasAt_def substituteAll_def r1 r2 r3)
  have s2: "substituteAll (generateGlobalStringReplaceInstructions
          [(''abc'', ''xyz''), (''abc@v1'', ''xyz@v2'')]) ''assets/abc@v1/tex.png''
       = ''assets/xyz@v2/tex.png''"
    by (simp add: generate_partition hasAt_def substituteAll_def r1 r2 r3)
  have s3: "applyStringReplaceInstructions [JObj [(''tex'', JArr [JStr ''assets/abc@v1/tex.png''])]]
        (generateGlobalStringReplaceInstructions [(''abc'', ''xyz''), (''abc@v1'', ''xyz@v2'')])
       = [JObj [(''tex'', JArr [JStr ''assets/xyz@v2/tex.png''])]]"
    by (simp add: applyString_mapStrings s2)
  show ?thesis
    using generate_partition [of mapping] applyString_mapStrings [of prefabData instructions]
      s1 s2 s3
    by (simp only: simp_thms)
qed

text \<open>
  With one mapped pair \<open>(f99, ZZ)\<close> the list is that pair and then the fixed pair: a pair
  whose \<open>from\<close> contains \<open>@\<close> stands after a pair whose \<open>from\<close> does not, and the string
  \<open>x@f9941\<close> loses its match for the fixed pair before that pair is tried.
\<close>

theorem substitution_fixed_pair_counterexample:
  "generateGlobalStringReplaceInstructions [(''f99'', ''ZZ'')]
     = [REPLACE_STRING_GLOBAL ''f99'' ''ZZ'', REPLACE_STRING_GLOBAL ''@f9941'' ''@6c48a'']
   \<and> \<not> hasAt (REPLACE_STRING_GLOBAL ''f99'' ''ZZ'')
   \<and> hasAt (REPLACE_STRING_GLOBAL ''@f9941'' ''@6c48a'')
   \<and> substituteAll (generateGlobalStringReplaceInstructions [(''f99'', ''ZZ'')]) ''x@f9941''
       = ''x@ZZ41''
   \<and> replaceString ''x@f9941'' ''@f9941'' ''@6c48a'' = ''x@6c48a''"
proof -
  have g: "generateGlobalStringReplaceInstructions [(''f99'', ''ZZ'')]
     = [REPLACE_STRING_GLOBAL ''f99'' ''ZZ'', REPLACE_STRING_GLOBAL ''@f9941'' ''@6c48a'']"
    by (simp add: generate_partition hasAt_def)
  have r1: "replaceString ''x@f9941'' ''f99'' ''ZZ'' = ''x@ZZ41''"
    by (simp add: replaceString_def split_def)
  have r2: "replaceString ''x@ZZ41'' ''@f9941'' ''@6c48a'' = ''x@ZZ41''"
    by (simp add: replaceString_def split_def)
  have r3: "replaceString ''x@f9941'' ''@f9941'' ''@6c48a'' = ''x@6c48a''"
    by (simp add: replaceString_def split_def)
  show ?thesis
    by (simp add: g hasAt_def substituteAll_def r1 r2 r3)
qed

section \<open>Removal: the order of the splices\<close>





lemma removeAt_nth:
  "p < length xs \<Longrightarrow> \<forall>q \<in> set ps. i + p < q \<Longrightarrow> removeAt ps i xs ! p = xs ! p"
proof (induction xs arbitrary: i p)
  case Nil
  then show ?case by simp
next
  case (Cons x xs)
  from Cons.prems have ni: "i \<notin> set ps" by auto
  show ?case
  proof (cases p)
    case 0
    with ni show ?thesis by simp
  next
    case (Suc p')
    have "removeAt ps (Suc i) xs ! p' = xs ! p'"
      using Cons.prems Suc by (intro Cons.IH) auto
    with ni Suc show ?thesis by simp
  qed
qed
































lemma removed_component:
  "c < length d \<Longrightarrow> c \<in> set (compSlots rs) \<Longrightarrow> truthy (d ! c) \<Longrightarrow> removed d rs ! c = JUndefined"
  by (simp add: removed_def removedSlot_def)






end

